theory Spec2Isabelle
  imports Complex_Main "HOL-Library.Sublist" "HOL-Library.AList" "HOL-Library.Multiset"
    "HOL-Library.Char_ord" "HOL-Library.List_Lexorder"
begin

section \<open>SoccerLens: ranking and similarity of player records\<close>

text \<open>
  A shallow embedding of \<^verbatim>\<open>players/models.py\<close>, \<^verbatim>\<open>players/sorting.py\<close> and
  \<^verbatim>\<open>players/vector_search.py\<close>. Python floats are idealised as \<^typ>\<open>real\<close>, Python
  integers are \<^typ>\<open>int\<close>, strings are \<^typ>\<open>string\<close>. Exceptions are values of
  \<open>py_exn\<close>; a computation that may raise has type \<open>py_exn + 'a\<close>.
\<close>

subsection \<open>Exceptions\<close>

datatype py_exn = ValueError | ZeroDivisionError | TypeError | DatabaseError | FieldError

definition bind_exn :: "py_exn + 'a \<Rightarrow> ('a \<Rightarrow> py_exn + 'b) \<Rightarrow> py_exn + 'b" where
  "bind_exn m f = (case m of Inl e \<Rightarrow> Inl e | Inr x \<Rightarrow> f x)"

text \<open>Python's \<^verbatim>\<open>a / b\<close> on numbers: raises on a zero divisor.\<close>

definition py_truediv :: "real \<Rightarrow> real \<Rightarrow> py_exn + real" where
  "py_truediv a b = (if b = 0 then Inl ZeroDivisionError else Inr (a / b))"

text \<open>Python's \<^verbatim>\<open>round(x, nd)\<close>: to \<open>nd\<close> decimals, an exact half going to the even side.\<close>

definition py_round :: "real \<Rightarrow> nat \<Rightarrow> real" where
  "py_round x nd =
     (let y = x * 10 ^ nd; f = \<lfloor>y\<rfloor>; r = y - of_int f
      in of_int (if r < 1 / 2 then f else if 1 / 2 < r then f + 1
                 else if even f then f else f + 1) / 10 ^ nd)"

subsection \<open>The Player model\<close>

text \<open>
  The stored attributes of \<^verbatim>\<open>Player\<close> that the sort registry names or that the
  similarity engine reads. Nullable columns are options.
\<close>

record player =
  id_pk :: int
  name :: string
  last_name :: "string option"
  position :: string
  competition :: string
  age :: real
  matches_played :: int
  minutes :: int
  minutes_per_90 :: real
  goals :: int
  assists :: int
  goals_assists :: int
  yellow_cards :: int
  red_cards :: int
  expected_goals :: real
  expected_assists :: real
  shots_on_target_percentage :: real
  pass_completion_percentage :: real
  key_passes :: int
  tackles :: int
  interceptions :: int
  blocks :: int
  dribble_success_percentage :: real
  goals_against_per_90 :: "real option"
  save_percentage :: "real option"
  clean_sheets :: "int option"
  progressive_carries :: int
  progressive_passes :: int
  similarity_score :: "real option"

subsubsection \<open>Calculated properties\<close>

definition goals_per_90 :: "player \<Rightarrow> py_exn + real" where
  "goals_per_90 p =
     (if 0 < minutes_per_90 p
      then bind_exn (py_truediv (of_int (goals p)) (minutes_per_90 p)) (\<lambda>q. Inr (py_round q 2))
      else Inr 0)"

definition assists_per_90 :: "player \<Rightarrow> py_exn + real" where
  "assists_per_90 p =
     (if 0 < minutes_per_90 p
      then bind_exn (py_truediv (of_int (assists p)) (minutes_per_90 p)) (\<lambda>q. Inr (py_round q 2))
      else Inr 0)"

definition goal_contribution_per_90 :: "player \<Rightarrow> py_exn + real" where
  "goal_contribution_per_90 p =
     (if 0 < minutes_per_90 p
      then bind_exn (py_truediv (of_int (goals_assists p)) (minutes_per_90 p))
             (\<lambda>q. Inr (py_round q 2))
      else Inr 0)"

definition minutes_per_game :: "player \<Rightarrow> py_exn + real" where
  "minutes_per_game p =
     (if 0 < matches_played p
      then bind_exn (py_truediv (of_int (minutes p)) (of_int (matches_played p)))
             (\<lambda>q. Inr (py_round q 1))
      else Inr 0)"

subsubsection \<open>Style description\<close>

text \<open>\<^verbatim>\<open>" ".join(parts)\<close>.\<close>

fun py_join :: "string \<Rightarrow> string list \<Rightarrow> string" where
  "py_join sep [] = []"
| "py_join sep [x] = x"
| "py_join sep (x # y # ys) = x @ sep @ py_join sep (y # ys)"

text \<open>
  The position cascade of \<^verbatim>\<open>generate_style_description\<close>; \<^verbatim>\<open>'FW' in self.position\<close>
  is a substring test.
\<close>

definition position_parts :: "player \<Rightarrow> string list" where
  "position_parts p =
     (if sublist ''FW'' (position p) then
        [''attacking player'']
        @ (if 10 < goals p then [''prolific goalscorer''] else [])
        @ (if 5 < assists p then [''creative playmaker''] else [])
      else if sublist ''MF'' (position p) then
        [''midfielder'']
        @ (if 5 < assists p then [''creative midfielder''] else [])
        @ (if 20 < tackles p then [''defensive midfielder''] else [])
      else if sublist ''DF'' (position p) then
        [''defender'']
        @ (if 30 < tackles p then [''strong tackler''] else [])
        @ (if 85 < pass_completion_percentage p then [''ball-playing defender''] else [])
      else if sublist ''GK'' (position p) then
        [''goalkeeper'']
        @ (if (case save_percentage p of None \<Rightarrow> False | Some s \<Rightarrow> s \<noteq> 0 \<and> 75 < s)
           then [''reliable shot-stopper''] else [])
      else [])"

definition performance_parts :: "player \<Rightarrow> string list" where
  "performance_parts p =
     (if 60 < dribble_success_percentage p then [''skilled dribbler''] else [])
     @ (if 85 < pass_completion_percentage p then [''accurate passer''] else [])
     @ (if 50 < shots_on_target_percentage p then [''clinical finisher''] else [])"

definition playing_style_parts :: "player \<Rightarrow> string list" where
  "playing_style_parts p =
     (if 50 < progressive_passes p then [''progressive passer''] else [])
     @ (if 30 < progressive_carries p then [''ball carrier''] else [])"

definition age_parts :: "player \<Rightarrow> string list" where
  "age_parts p =
     (if age p < 23 then [''young talent'']
      else if 30 < age p then [''experienced player''] else [])"

definition description_parts :: "player \<Rightarrow> string list" where
  "description_parts p =
     position_parts p @ performance_parts p @ playing_style_parts p @ age_parts p"

definition generate_style_description :: "player \<Rightarrow> string" where
  "generate_style_description p =
     (if description_parts p \<noteq> [] then py_join '' '' (description_parts p)
      else ''versatile player'')"

subsubsection \<open>Statistics vector\<close>

text \<open>
  \<^verbatim>\<open>min((cnt / self.minutes_per_90) / ref, 1.0) if self.minutes_per_90 > 0 else 0\<close>,
  the shape of four entries of the vector. Division by a non-zero literal cannot raise and
  is written as plain division; division by a field goes through \<open>py_truediv\<close>.
\<close>

definition rate_feature :: "int \<Rightarrow> real \<Rightarrow> real \<Rightarrow> py_exn + real" where
  "rate_feature cnt mp90 ref =
     (if 0 < mp90 then bind_exn (py_truediv (of_int cnt) mp90) (\<lambda>q. Inr (min (q / ref) 1))
      else Inr 0)"

text \<open>\<^verbatim>\<open>pct / 100.0 if pct > 0 else 0\<close>.\<close>

definition pct_feature :: "real \<Rightarrow> real" where
  "pct_feature pct = (if 0 < pct then pct / 100 else 0)"

text \<open>
  \<^verbatim>\<open>min(self.goals_per_90 / ref, 1.0) if self.goals_per_90 > 0 else 0\<close>: the property
  is read for the test and again for the value.
\<close>

definition per_90_feature :: "(py_exn + real) \<Rightarrow> real \<Rightarrow> py_exn + real" where
  "per_90_feature prop ref =
     bind_exn prop (\<lambda>c. if 0 < c then bind_exn prop (\<lambda>g. Inr (min (g / ref) 1)) else Inr 0)"

definition get_statistics_vector :: "player \<Rightarrow> py_exn + real list" where
  "get_statistics_vector p =
     bind_exn (per_90_feature (goals_per_90 p) 1) (\<lambda>f_goals.
     bind_exn (per_90_feature (assists_per_90 p) (1 / 2)) (\<lambda>f_assists.
     bind_exn (rate_feature (tackles p) (minutes_per_90 p) 5) (\<lambda>f_tackles.
     bind_exn (rate_feature (interceptions p) (minutes_per_90 p) 3) (\<lambda>f_inter.
     bind_exn (rate_feature (progressive_passes p) (minutes_per_90 p) 10) (\<lambda>f_pp.
     bind_exn (rate_feature (progressive_carries p) (minutes_per_90 p) 5) (\<lambda>f_pc.
       Inr [f_goals, f_assists,
            pct_feature (shots_on_target_percentage p),
            pct_feature (pass_completion_percentage p),
            pct_feature (dribble_success_percentage p),
            f_tackles, f_inter, f_pp, f_pc,
            min (age p / 40) 1]))))))"

subsection \<open>Similarity kernels\<close>

text \<open>\<^verbatim>\<open>np.dot\<close> on two 1-d arrays raises on a shape mismatch.\<close>

definition np_dot :: "real list \<Rightarrow> real list \<Rightarrow> py_exn + real" where
  "np_dot v1 v2 =
     (if length v1 \<noteq> length v2 then Inl ValueError
      else Inr (\<Sum>(x, y)\<leftarrow>zip v1 v2. x * y))"

definition np_norm :: "real list \<Rightarrow> real" where
  "np_norm v = sqrt (\<Sum>x\<leftarrow>v. x * x)"

text \<open>The body of \<^verbatim>\<open>_cosine_similarity\<close> inside its \<^verbatim>\<open>try\<close>.\<close>

definition cosine_body :: "real list \<Rightarrow> real list \<Rightarrow> py_exn + real" where
  "cosine_body v1 v2 =
     (if list_all (\<lambda>x. x = 0) v1 \<or> list_all (\<lambda>x. x = 0) v2 then Inr 0
      else bind_exn (np_dot v1 v2) (\<lambda>dot_product.
        let norm1 = np_norm v1; norm2 = np_norm v2
        in if norm1 = 0 \<or> norm2 = 0 then Inr 0
           else Inr (dot_product / (norm1 * norm2))))"

definition cosine_similarity :: "real list \<Rightarrow> real list \<Rightarrow> real" where
  "cosine_similarity v1 v2 = (case cosine_body v1 v2 of Inl e \<Rightarrow> 0 | Inr s \<Rightarrow> s)"

text \<open>\<^verbatim>\<open>str.lower\<close> and \<^verbatim>\<open>str.split()\<close> on ASCII text.\<close>

definition lower_char :: "char \<Rightarrow> char" where
  "lower_char c =
     (case map_of (zip ''ABCDEFGHIJKLMNOPQRSTUVWXYZ'' ''abcdefghijklmnopqrstuvwxyz'') c of
        Some d \<Rightarrow> d | None \<Rightarrow> c)"

definition py_lower :: "string \<Rightarrow> string" where
  "py_lower s = map lower_char s"

definition is_space :: "char \<Rightarrow> bool" where
  "is_space c \<longleftrightarrow>
     c \<in> set [CHR '' '', CHR 0x09, CHR 0x0A, CHR 0x0B, CHR 0x0C, CHR 0x0D,
              CHR 0x1C, CHR 0x1D, CHR 0x1E, CHR 0x1F]"

text \<open>\<open>split_aux cur s\<close>: \<open>cur\<close> is the word being read, reversed.\<close>

fun split_aux :: "string \<Rightarrow> string \<Rightarrow> string list" where
  "split_aux cur [] = (if cur = [] then [] else [rev cur])"
| "split_aux cur (c # cs) =
     (if is_space c then (if cur = [] then split_aux [] cs else rev cur # split_aux [] cs)
      else split_aux (c # cur) cs)"

definition py_split :: "string \<Rightarrow> string list" where
  "py_split s = split_aux [] s"

definition text_similarity :: "string \<Rightarrow> string \<Rightarrow> real" where
  "text_similarity text1 text2 =
     (let words1 = set (py_split (py_lower text1));
          words2 = set (py_split (py_lower text2))
      in if words1 = {} \<or> words2 = {} then 0
         else (case py_truediv (real (card (words1 \<inter> words2))) (real (card (words1 \<union> words2)))
               of Inl e \<Rightarrow> 0 | Inr s \<Rightarrow> s))"

subsection \<open>Stable sorting\<close>

text \<open>
  Python's \<^verbatim>\<open>list.sort\<close> is stable, also with \<^verbatim>\<open>reverse=True\<close>: elements that
  compare equal keep their order. \<open>le a b\<close> reads "\<open>a\<close> may stand before \<open>b\<close>".
\<close>

fun insert_by :: "('a \<Rightarrow> 'a \<Rightarrow> bool) \<Rightarrow> 'a \<Rightarrow> 'a list \<Rightarrow> 'a list" where
  "insert_by le x [] = [x]"
| "insert_by le x (y # ys) = (if le x y then x # y # ys else y # insert_by le x ys)"

definition stable_sort_by :: "('a \<Rightarrow> 'a \<Rightarrow> bool) \<Rightarrow> 'a list \<Rightarrow> 'a list" where
  "stable_sort_by le xs = foldr (insert_by le) xs []"

text \<open>\<^verbatim>\<open>similarities.sort(key=lambda x: x[1], reverse=True)\<close>.\<close>

definition score_ge :: "'a \<times> real \<Rightarrow> 'a \<times> real \<Rightarrow> bool" where
  "score_ge a b \<longleftrightarrow> snd b \<le> snd a"

definition sort_by_score_desc :: "('a \<times> real) list \<Rightarrow> ('a \<times> real) list" where
  "sort_by_score_desc sims = stable_sort_by score_ge sims"

text \<open>
  \<^verbatim>\<open>xs[:limit]\<close> on a Python list: a negative limit counts from the end.
\<close>

definition py_slice_to :: "int \<Rightarrow> 'a list \<Rightarrow> 'a list" where
  "py_slice_to limit xs =
     (if 0 \<le> limit then take (nat limit) xs else take (length xs - nat (- limit)) xs)"

subsection \<open>The record store\<close>

text \<open>
  The table behind \<^verbatim>\<open>Player.objects\<close>: its rows in the order the store scans them, and
  for each of the engine's three queries whether evaluating it raises. A query that does
  not ask for an order gets the model's \<^verbatim>\<open>Meta.ordering = ['-goals', '-assists', 'name']\<close>;
  rows that the ordering does not separate come in scan order.
\<close>

datatype query_site = StatisticalQuery | NlpQuery | FallbackQuery

record store =
  rows :: "player list"
  outage :: "query_site \<Rightarrow> bool"

definition meta_le :: "player \<Rightarrow> player \<Rightarrow> bool" where
  "meta_le a b \<longleftrightarrow>
     goals b < goals a \<or>
     (goals a = goals b \<and>
       (assists b < assists a \<or> (assists a = assists b \<and> name a \<le> name b)))"

text \<open>\<^verbatim>\<open>order_by('-goals', '-assists')\<close>.\<close>

definition goals_assists_le :: "player \<Rightarrow> player \<Rightarrow> bool" where
  "goals_assists_le a b \<longleftrightarrow>
     goals b < goals a \<or> (goals a = goals b \<and> assists b \<le> assists a)"

definition fetch ::
  "store \<Rightarrow> query_site \<Rightarrow> (player \<Rightarrow> bool) \<Rightarrow> (player \<Rightarrow> player \<Rightarrow> bool) \<Rightarrow> py_exn + player list"
where
  "fetch st site cond le =
     (if outage st site then Inl DatabaseError
      else Inr (stable_sort_by le (filter cond (rows st))))"

text \<open>
  \<^verbatim>\<open>queryset[:limit]\<close>: a queryset refuses a negative bound ("Negative indexing is not
  supported.").
\<close>

definition qs_slice_to :: "int \<Rightarrow> py_exn + nat" where
  "qs_slice_to limit = (if limit < 0 then Inl ValueError else Inr (nat limit))"

subsection \<open>VectorSearchService\<close>

subsubsection \<open>Fallback\<close>

definition fallback_cond :: "player \<Rightarrow> player \<Rightarrow> bool" where
  "fallback_cond player other \<longleftrightarrow>
     position other = position player \<and>
     age player - 3 \<le> age other \<and> age other \<le> age player + 3 \<and>
     competition other = competition player \<and>
     id_pk other \<noteq> id_pk player"

definition fallback_body :: "store \<Rightarrow> player \<Rightarrow> int \<Rightarrow> py_exn + player list" where
  "fallback_body st player limit =
     bind_exn (qs_slice_to limit) (\<lambda>n.
     bind_exn (fetch st FallbackQuery (fallback_cond player) goals_assists_le) (\<lambda>ordered.
       Inr (map (\<lambda>p. p\<lparr>similarity_score := Some (1 / 2)\<rparr>) (take n ordered))))"

definition fallback_similarity_search :: "store \<Rightarrow> player \<Rightarrow> int \<Rightarrow> player list" where
  "fallback_similarity_search st player limit =
     (case fallback_body st player limit of Inl e \<Rightarrow> [] | Inr r \<Rightarrow> r)"

subsubsection \<open>Statistical strategy\<close>

definition statistical_cond :: "player \<Rightarrow> player \<Rightarrow> bool" where
  "statistical_cond player other \<longleftrightarrow>
     position other = position player \<and>
     competition other = competition player \<and>
     id_pk other \<noteq> id_pk player"

fun statistical_loop :: "real \<Rightarrow> real list \<Rightarrow> player list \<Rightarrow> py_exn + (player \<times> real) list" where
  "statistical_loop th player_vector [] = Inr []"
| "statistical_loop th player_vector (other_player # rest) =
     bind_exn (get_statistics_vector other_player) (\<lambda>other_vector.
       let similarity = cosine_similarity player_vector other_vector
       in bind_exn (statistical_loop th player_vector rest) (\<lambda>similarities.
            Inr (if th \<le> similarity
                 then (other_player\<lparr>similarity_score := Some similarity\<rparr>, similarity)
                      # similarities
                 else similarities)))"

definition statistical_body :: "store \<Rightarrow> real \<Rightarrow> player \<Rightarrow> int \<Rightarrow> py_exn + player list" where
  "statistical_body st th player limit =
     bind_exn (get_statistics_vector player) (\<lambda>player_vector.
     bind_exn (fetch st StatisticalQuery (statistical_cond player) meta_le) (\<lambda>similar_players.
     bind_exn (statistical_loop th player_vector similar_players) (\<lambda>similarities.
       Inr (map fst (py_slice_to limit (sort_by_score_desc similarities))))))"

definition find_statistical_similarities :: "store \<Rightarrow> real \<Rightarrow> player \<Rightarrow> int \<Rightarrow> player list" where
  "find_statistical_similarities st th player limit =
     (case statistical_body st th player limit of
        Inl e \<Rightarrow> fallback_similarity_search st player limit
      | Inr r \<Rightarrow> r)"

subsubsection \<open>NLP strategy\<close>

definition nlp_cond :: "player \<Rightarrow> player \<Rightarrow> bool" where
  "nlp_cond player other \<longleftrightarrow>
     position other = position player \<and> id_pk other \<noteq> id_pk player"

fun nlp_loop :: "real \<Rightarrow> string \<Rightarrow> player list \<Rightarrow> (player \<times> real) list" where
  "nlp_loop th target_description [] = []"
| "nlp_loop th target_description (other_player # rest) =
     (let other_description = generate_style_description other_player;
          similarity = text_similarity target_description other_description;
          similarities = nlp_loop th target_description rest
      in if th \<le> similarity
         then (other_player\<lparr>similarity_score := Some similarity\<rparr>, similarity) # similarities
         else similarities)"

definition nlp_body :: "store \<Rightarrow> real \<Rightarrow> player \<Rightarrow> int \<Rightarrow> py_exn + player list" where
  "nlp_body st th player limit =
     (let target_description = generate_style_description player
      in bind_exn (fetch st NlpQuery (nlp_cond player) meta_le) (\<lambda>similar_players.
           Inr (map fst (py_slice_to limit
                  (sort_by_score_desc (nlp_loop th target_description similar_players))))))"

definition find_nlp_similarities :: "store \<Rightarrow> real \<Rightarrow> player \<Rightarrow> int \<Rightarrow> player list" where
  "find_nlp_similarities st th player limit =
     (case nlp_body st th player limit of
        Inl e \<Rightarrow> fallback_similarity_search st player limit
      | Inr r \<Rightarrow> r)"

subsubsection \<open>Hybrid strategy\<close>

text \<open>
  \<^verbatim>\<open>all_similar\<close> is a dict keyed by id; a dict keeps its keys in insertion order and an
  assignment to a present key keeps the key's place, which is \<open>AList.update\<close>.
\<close>

record hybrid_entry =
  entry_player :: player
  statistical_score :: "real option"
  nlp_score :: "real option"

definition add_statistical ::
  "player \<Rightarrow> (int \<times> hybrid_entry) list \<Rightarrow> (int \<times> hybrid_entry) list" where
  "add_statistical p all_similar =
     AList.update (id_pk p)
       \<lparr>entry_player = p, statistical_score = similarity_score p, nlp_score = Some 0\<rparr>
       all_similar"

definition add_nlp ::
  "player \<Rightarrow> (int \<times> hybrid_entry) list \<Rightarrow> (int \<times> hybrid_entry) list" where
  "add_nlp p all_similar =
     (case map_of all_similar (id_pk p) of
        Some e \<Rightarrow> AList.update (id_pk p) (e\<lparr>nlp_score := similarity_score p\<rparr>) all_similar
      | None \<Rightarrow>
          AList.update (id_pk p)
            \<lparr>entry_player = p, statistical_score = Some 0, nlp_score = similarity_score p\<rparr>
            all_similar)"

text \<open>
  \<^verbatim>\<open>data['statistical_score'] * 0.6 + data['nlp_score'] * 0.4\<close>; a score that is
  \<^verbatim>\<open>None\<close> makes the product raise.
\<close>

definition hybrid_score_of :: "hybrid_entry \<Rightarrow> py_exn + player \<times> real" where
  "hybrid_score_of data =
     (case statistical_score data of
        None \<Rightarrow> Inl TypeError
      | Some s \<Rightarrow>
          (case nlp_score data of
             None \<Rightarrow> Inl TypeError
           | Some n \<Rightarrow>
               (let hybrid_score = s * (6 / 10) + n * (4 / 10)
                in Inr (entry_player data\<lparr>similarity_score := Some hybrid_score\<rparr>,
                        hybrid_score))))"

fun hybrid_loop :: "(int \<times> hybrid_entry) list \<Rightarrow> py_exn + (player \<times> real) list" where
  "hybrid_loop [] = Inr []"
| "hybrid_loop ((player_id, data) # rest) =
     bind_exn (hybrid_score_of data) (\<lambda>scored.
     bind_exn (hybrid_loop rest) (\<lambda>hybrid_scores. Inr (scored # hybrid_scores)))"

definition all_similar_of :: "player list \<Rightarrow> player list \<Rightarrow> (int \<times> hybrid_entry) list" where
  "all_similar_of statistical_similar nlp_similar =
     fold add_nlp nlp_similar (fold add_statistical statistical_similar [])"

definition hybrid_body :: "store \<Rightarrow> real \<Rightarrow> player \<Rightarrow> int \<Rightarrow> py_exn + player list" where
  "hybrid_body st th player limit =
     (let statistical_similar = find_statistical_similarities st th player (limit * 2);
          nlp_similar = find_nlp_similarities st th player (limit * 2)
      in bind_exn (hybrid_loop (all_similar_of statistical_similar nlp_similar))
           (\<lambda>hybrid_scores.
              Inr (map fst (py_slice_to limit (sort_by_score_desc hybrid_scores)))))"

definition find_hybrid_similarities :: "store \<Rightarrow> real \<Rightarrow> player \<Rightarrow> int \<Rightarrow> player list" where
  "find_hybrid_similarities st th player limit =
     (case hybrid_body st th player limit of
        Inl e \<Rightarrow> fallback_similarity_search st player limit
      | Inr r \<Rightarrow> r)"

subsubsection \<open>Dispatch\<close>

definition find_similar_players ::
  "store \<Rightarrow> real \<Rightarrow> player \<Rightarrow> int \<Rightarrow> string \<Rightarrow> py_exn + player list" where
  "find_similar_players st th player limit method =
     (if method = ''statistical'' then Inr (find_statistical_similarities st th player limit)
      else if method = ''nlp'' then Inr (find_nlp_similarities st th player limit)
      else if method = ''hybrid'' then Inr (find_hybrid_similarities st th player limit)
      else Inl ValueError)"

subsection \<open>PlayerSortingManager\<close>

record sort_option =
  display_name :: string
  field :: string
  description :: string
  category :: string

text \<open>The registry is a dict from sort key to option; the class starts with this one.\<close>

definition SORT_OPTIONS :: "(string \<times> sort_option) list" where
  "SORT_OPTIONS =
      [(''name'',
        \<lparr>display_name = ''Name (A-Z)'', field = ''last_name'',
         description = ''Sort by last name alphabetically'',
         category = ''basic''\<rparr>),
       (''goals'',
        \<lparr>display_name = ''Goals'', field = ''goals'',
         description = ''Total goals scored'',
         category = ''attacking''\<rparr>),
       (''assists'',
        \<lparr>display_name = ''Assists'', field = ''assists'',
         description = ''Total assists provided'',
         category = ''attacking''\<rparr>),
       (''goals_assists'',
        \<lparr>display_name = ''Goals + Assists'', field = ''goals_assists'',
         description = ''Combined goals and assists'',
         category = ''attacking''\<rparr>),
       (''goals_per_90'',
        \<lparr>display_name = ''Goals per 90'', field = ''goals_per_90'',
         description = ''Goals scored per 90 minutes'',
         category = ''attacking''\<rparr>),
       (''assists_per_90'',
        \<lparr>display_name = ''Assists per 90'', field = ''assists_per_90'',
         description = ''Assists per 90 minutes'',
         category = ''attacking''\<rparr>),
       (''goal_contribution_per_90'',
        \<lparr>display_name = ''Goal Contributions per 90'', field = ''goal_contribution_per_90'',
         description = ''Goals + assists per 90 minutes'',
         category = ''attacking''\<rparr>),
       (''expected_goals'',
        \<lparr>display_name = ''Expected Goals (xG)'', field = ''expected_goals'',
         description = ''Expected goals based on shot quality'',
         category = ''advanced_attacking''\<rparr>),
       (''expected_assists'',
        \<lparr>display_name = ''Expected Assists (xA)'', field = ''expected_assists'',
         description = ''Expected assists based on pass quality'',
         category = ''advanced_attacking''\<rparr>),
       (''shots_on_target_percentage'',
        \<lparr>display_name = ''Shot Accuracy %'', field = ''shots_on_target_percentage'',
         description = ''Percentage of shots on target'',
         category = ''shooting''\<rparr>),
       (''pass_completion_percentage'',
        \<lparr>display_name = ''Pass Accuracy %'', field = ''pass_completion_percentage'',
         description = ''Pass completion percentage'',
         category = ''passing''\<rparr>),
       (''key_passes'',
        \<lparr>display_name = ''Key Passes'', field = ''key_passes'',
         description = ''Passes leading to shots'',
         category = ''passing''\<rparr>),
       (''tackles'',
        \<lparr>display_name = ''Tackles'', field = ''tackles'',
         description = ''Total tackles made'',
         category = ''defensive''\<rparr>),
       (''interceptions'',
        \<lparr>display_name = ''Interceptions'', field = ''interceptions'',
         description = ''Total interceptions'',
         category = ''defensive''\<rparr>),
       (''blocks'',
        \<lparr>display_name = ''Blocks'', field = ''blocks'',
         description = ''Total blocks'',
         category = ''defensive''\<rparr>),
       (''dribble_success_percentage'',
        \<lparr>display_name = ''Dribble Success %'', field = ''dribble_success_percentage'',
         description = ''Successful dribble percentage'',
         category = ''possession''\<rparr>),
       (''progressive_carries'',
        \<lparr>display_name = ''Progressive Carries'', field = ''progressive_carries'',
         description = ''Carries that advance the ball'',
         category = ''possession''\<rparr>),
       (''progressive_passes'',
        \<lparr>display_name = ''Progressive Passes'', field = ''progressive_passes'',
         description = ''Passes that advance the ball'',
         category = ''possession''\<rparr>),
       (''save_percentage'',
        \<lparr>display_name = ''Save %'', field = ''save_percentage'',
         description = ''Save percentage (goalkeepers only)'',
         category = ''goalkeeper''\<rparr>),
       (''clean_sheets'',
        \<lparr>display_name = ''Clean Sheets'', field = ''clean_sheets'',
         description = ''Clean sheets kept (goalkeepers only)'',
         category = ''goalkeeper''\<rparr>),
       (''goals_against_per_90'',
        \<lparr>display_name = ''Goals Against per 90'', field = ''goals_against_per_90'',
         description = ''Goals conceded per 90 (goalkeepers only)'',
         category = ''goalkeeper''\<rparr>),
       (''matches_played'',
        \<lparr>display_name = ''Matches Played'', field = ''matches_played'',
         description = ''Total matches played'',
         category = ''playing_time''\<rparr>),
       (''minutes'',
        \<lparr>display_name = ''Minutes Played'', field = ''minutes'',
         description = ''Total minutes played'',
         category = ''playing_time''\<rparr>),
       (''minutes_per_game'',
        \<lparr>display_name = ''Minutes per Game'', field = ''minutes_per_game'',
         description = ''Average minutes per match'',
         category = ''playing_time''\<rparr>),
       (''yellow_cards'',
        \<lparr>display_name = ''Yellow Cards'', field = ''yellow_cards'',
         description = ''Total yellow cards'',
         category = ''discipline''\<rparr>),
       (''red_cards'',
        \<lparr>display_name = ''Red Cards'', field = ''red_cards'',
         description = ''Total red cards'',
         category = ''discipline''\<rparr>),
       (''age'',
        \<lparr>display_name = ''Age'', field = ''age'',
         description = ''Player age'',
         category = ''basic''\<rparr>)]"

definition is_valid_sort_option :: "(string \<times> sort_option) list \<Rightarrow> string \<Rightarrow> bool" where
  "is_valid_sort_option reg skey \<longleftrightarrow> skey \<in> fst ` set reg"

definition get_sort_field :: "(string \<times> sort_option) list \<Rightarrow> string \<Rightarrow> py_exn + string" where
  "get_sort_field reg skey =
     (if \<not> is_valid_sort_option reg skey then Inl ValueError
      else (case map_of reg skey of None \<Rightarrow> Inl ValueError | Some opt \<Rightarrow> Inr (field opt)))"

definition add_sort_option ::
  "(string \<times> sort_option) list \<Rightarrow> string \<Rightarrow> string \<Rightarrow> string \<Rightarrow> string \<Rightarrow> string
     \<Rightarrow> (string \<times> sort_option) list" where
  "add_sort_option reg key dn fld descr cat =
     AList.update key \<lparr>display_name = dn, field = fld, description = descr, category = cat\<rparr> reg"

subsubsection \<open>Columns and their order\<close>

text \<open>
  The value of a column or of an annotation in a row. \<open>sql_le\<close> is the order of
  \<^verbatim>\<open>ORDER BY ... ASC\<close>: numbers by value, text bytewise, \<^verbatim>\<open>NULL\<close> first.
\<close>

datatype sql_value = SqlNull | SqlInt int | SqlFloat real | SqlText string

fun sql_le :: "sql_value \<Rightarrow> sql_value \<Rightarrow> bool" where
  "sql_le SqlNull v = True"
| "sql_le v SqlNull = False"
| "sql_le (SqlInt a) (SqlInt b) = (a \<le> b)"
| "sql_le (SqlInt a) (SqlFloat b) = (of_int a \<le> b)"
| "sql_le (SqlFloat a) (SqlInt b) = (a \<le> of_int b)"
| "sql_le (SqlFloat a) (SqlFloat b) = (a \<le> b)"
| "sql_le (SqlText a) (SqlText b) = (a \<le> b)"
| "sql_le (SqlText a) v = False"
| "sql_le v (SqlText b) = True"

definition opt_value :: "('a \<Rightarrow> sql_value) \<Rightarrow> 'a option \<Rightarrow> sql_value" where
  "opt_value f x = (case x of None \<Rightarrow> SqlNull | Some v \<Rightarrow> f v)"

text \<open>The stored attribute of that name, if the model has one.\<close>

definition column :: "string \<Rightarrow> (player \<Rightarrow> sql_value) option" where
  "column fld =
     map_of
       [(''id'', \<lambda>p. SqlInt (id_pk p)),
        (''name'', \<lambda>p. SqlText (name p)),
        (''last_name'', \<lambda>p. opt_value SqlText (last_name p)),
        (''position'', \<lambda>p. SqlText (position p)),
        (''competition'', \<lambda>p. SqlText (competition p)),
        (''age'', \<lambda>p. SqlFloat (age p)),
        (''matches_played'', \<lambda>p. SqlInt (matches_played p)),
        (''minutes'', \<lambda>p. SqlInt (minutes p)),
        (''minutes_per_90'', \<lambda>p. SqlFloat (minutes_per_90 p)),
        (''goals'', \<lambda>p. SqlInt (goals p)),
        (''assists'', \<lambda>p. SqlInt (assists p)),
        (''goals_assists'', \<lambda>p. SqlInt (goals_assists p)),
        (''yellow_cards'', \<lambda>p. SqlInt (yellow_cards p)),
        (''red_cards'', \<lambda>p. SqlInt (red_cards p)),
        (''expected_goals'', \<lambda>p. SqlFloat (expected_goals p)),
        (''expected_assists'', \<lambda>p. SqlFloat (expected_assists p)),
        (''shots_on_target_percentage'', \<lambda>p. SqlFloat (shots_on_target_percentage p)),
        (''pass_completion_percentage'', \<lambda>p. SqlFloat (pass_completion_percentage p)),
        (''key_passes'', \<lambda>p. SqlInt (key_passes p)),
        (''tackles'', \<lambda>p. SqlInt (tackles p)),
        (''interceptions'', \<lambda>p. SqlInt (interceptions p)),
        (''blocks'', \<lambda>p. SqlInt (blocks p)),
        (''dribble_success_percentage'', \<lambda>p. SqlFloat (dribble_success_percentage p)),
        (''goals_against_per_90'', \<lambda>p. opt_value SqlFloat (goals_against_per_90 p)),
        (''save_percentage'', \<lambda>p. opt_value SqlFloat (save_percentage p)),
        (''clean_sheets'', \<lambda>p. opt_value SqlInt (clean_sheets p)),
        (''progressive_carries'', \<lambda>p. SqlInt (progressive_carries p)),
        (''progressive_passes'', \<lambda>p. SqlInt (progressive_passes p)),
        (''similarity_score'', \<lambda>p. opt_value SqlFloat (similarity_score p))]
       fld"

text \<open>
  \<^verbatim>\<open>queryset.order_by(f)\<close> and \<^verbatim>\<open>queryset.order_by('-' + f)\<close> on rows annotated with
  the value to sort by. A queryset is the list of its rows in the order the store scans
  them; the statement names no second key, so rows with equal values stay in that order.
\<close>

definition value_le :: "bool \<Rightarrow> 'a \<times> sql_value \<Rightarrow> 'a \<times> sql_value \<Rightarrow> bool" where
  "value_le reverse a b = (if reverse then sql_le (snd b) (snd a) else sql_le (snd a) (snd b))"

definition order_by :: "bool \<Rightarrow> ('a \<times> sql_value) list \<Rightarrow> 'a list" where
  "order_by reverse annotated = map fst (stable_sort_by (value_le reverse) annotated)"

subsubsection \<open>Calculated fields\<close>

text \<open>
  \<^verbatim>\<open>F(a) / F(b)\<close> in the store: between two integer columns the quotient is an integer
  (truncated), otherwise a float; a zero divisor is an error of the store.
\<close>

fun sql_div :: "sql_value \<Rightarrow> sql_value \<Rightarrow> py_exn + sql_value" where
  "sql_div (SqlInt a) (SqlInt b) =
     (if b = 0 then Inl DatabaseError else Inr (SqlInt (sgn a * sgn b * (\<bar>a\<bar> div \<bar>b\<bar>))))"
| "sql_div (SqlInt a) (SqlFloat b) =
     (if b = 0 then Inl DatabaseError else Inr (SqlFloat (of_int a / b)))"
| "sql_div (SqlFloat a) (SqlInt b) =
     (if b = 0 then Inl DatabaseError else Inr (SqlFloat (a / of_int b)))"
| "sql_div (SqlFloat a) (SqlFloat b) =
     (if b = 0 then Inl DatabaseError else Inr (SqlFloat (a / b)))"
| "sql_div a b = Inr SqlNull"

text \<open>
  \<^verbatim>\<open>Case(When(minutes_per_90__gt=0, then=F('goals') / F('minutes_per_90')),
  default=Value(0.0))\<close> and its three siblings.
\<close>

definition goals_per_90_calc :: "player \<Rightarrow> py_exn + sql_value" where
  "goals_per_90_calc p =
     (if 0 < minutes_per_90 p then sql_div (SqlInt (goals p)) (SqlFloat (minutes_per_90 p))
      else Inr (SqlFloat 0))"

definition assists_per_90_calc :: "player \<Rightarrow> py_exn + sql_value" where
  "assists_per_90_calc p =
     (if 0 < minutes_per_90 p then sql_div (SqlInt (assists p)) (SqlFloat (minutes_per_90 p))
      else Inr (SqlFloat 0))"

definition goal_contribution_per_90_calc :: "player \<Rightarrow> py_exn + sql_value" where
  "goal_contribution_per_90_calc p =
     (if 0 < minutes_per_90 p
      then sql_div (SqlInt (goals_assists p)) (SqlFloat (minutes_per_90 p))
      else Inr (SqlFloat 0))"

definition minutes_per_game_calc :: "player \<Rightarrow> py_exn + sql_value" where
  "minutes_per_game_calc p =
     (if 0 < matches_played p then sql_div (SqlInt (minutes p)) (SqlInt (matches_played p))
      else Inr (SqlFloat 0))"

text \<open>\<^verbatim>\<open>queryset.annotate(...)\<close>: the expression is evaluated on every row.\<close>

fun annotate :: "(player \<Rightarrow> py_exn + sql_value) \<Rightarrow> player list \<Rightarrow> py_exn + (player \<times> sql_value) list"
where
  "annotate expr [] = Inr []"
| "annotate expr (p # ps) =
     bind_exn (expr p) (\<lambda>v. bind_exn (annotate expr ps) (\<lambda>rest. Inr ((p, v) # rest)))"

definition stored_sort :: "player list \<Rightarrow> string \<Rightarrow> bool \<Rightarrow> py_exn + player list" where
  "stored_sort queryset fld reverse =
     (case column fld of
        None \<Rightarrow> Inl FieldError
      | Some col \<Rightarrow> Inr (order_by reverse (map (\<lambda>p. (p, col p)) queryset)))"

definition apply_calculated_sort :: "player list \<Rightarrow> string \<Rightarrow> bool \<Rightarrow> py_exn + player list" where
  "apply_calculated_sort queryset fld reverse =
     (if fld = ''goals_per_90'' then
        bind_exn (annotate goals_per_90_calc queryset) (\<lambda>a. Inr (order_by reverse a))
      else if fld = ''assists_per_90'' then
        bind_exn (annotate assists_per_90_calc queryset) (\<lambda>a. Inr (order_by reverse a))
      else if fld = ''goal_contribution_per_90'' then
        bind_exn (annotate goal_contribution_per_90_calc queryset) (\<lambda>a. Inr (order_by reverse a))
      else if fld = ''minutes_per_game'' then
        bind_exn (annotate minutes_per_game_calc queryset) (\<lambda>a. Inr (order_by reverse a))
      else stored_sort queryset fld reverse)"

definition apply_sorting ::
  "(string \<times> sort_option) list \<Rightarrow> player list \<Rightarrow> string \<Rightarrow> bool \<Rightarrow> py_exn + player list" where
  "apply_sorting reg queryset skey reverse =
     (if \<not> is_valid_sort_option reg skey then Inl ValueError
      else bind_exn (get_sort_field reg skey) (\<lambda>fld.
        if fld \<in> set [''goals_per_90'', ''assists_per_90'', ''goal_contribution_per_90'',
                       ''minutes_per_game'']
        then apply_calculated_sort queryset fld reverse
        else stored_sort queryset fld reverse))"

subsection \<open>Example records\<close>

text \<open>A row holding the column defaults of the model.\<close>

definition blank_player :: player where
  "blank_player =
     \<lparr>id_pk = 0, name = [], last_name = None, position = [], competition = [], age = 25,
      matches_played = 0, minutes = 0, minutes_per_90 = 0, goals = 0, assists = 0,
      goals_assists = 0, yellow_cards = 0, red_cards = 0, expected_goals = 0,
      expected_assists = 0, shots_on_target_percentage = 0, pass_completion_percentage = 0,
      key_passes = 0, tackles = 0, interceptions = 0, blocks = 0,
      dribble_success_percentage = 0, goals_against_per_90 = None, save_percentage = None,
      clean_sheets = None, progressive_carries = 0, progressive_passes = 0,
      similarity_score = None\<rparr>"



subsection \<open>Auxiliary predicates\<close>

text \<open>The string is not empty and its first character is not white space.\<close>

definition starts_with_word :: "string \<Rightarrow> bool" where
  "starts_with_word s \<longleftrightarrow> (case s of [] \<Rightarrow> False | c # cs \<Rightarrow> \<not> is_space c)"



text \<open>
  The score the statistical strategy gives a candidate against the target, the score the
  NLP strategy gives it, and the list a scoring loop leaves: the candidates at or above the
  threshold, each carrying its score, in the order of the pool.
\<close>

definition statistical_score_of :: "player \<Rightarrow> player \<Rightarrow> real" where
  "statistical_score_of player other =
     (case get_statistics_vector player of
        Inl e \<Rightarrow> 0
      | Inr pv \<Rightarrow> (case get_statistics_vector other of
                     Inl e \<Rightarrow> 0
                   | Inr ov \<Rightarrow> cosine_similarity pv ov))"

definition nlp_score_of :: "player \<Rightarrow> player \<Rightarrow> real" where
  "nlp_score_of player other =
     text_similarity (generate_style_description player) (generate_style_description other)"

definition keep_scored :: "real \<Rightarrow> (player \<Rightarrow> real) \<Rightarrow> player list \<Rightarrow> (player \<times> real) list" where
  "keep_scored th score pool =
     map (\<lambda>c. (c\<lparr>similarity_score := Some (score c)\<rparr>, score c))
       (filter (\<lambda>c. th \<le> score c) pool)"

text \<open>
  Two midfielders of one league, three years apart in age; the first completes 60 percent
  of his passes, neither has played.
\<close>

definition passer :: player where
  "passer = blank_player\<lparr>id_pk := 1, name := ''Alba'', position := ''MF'',
     competition := ''La Liga'', age := 32, pass_completion_percentage := 60\<rparr>"

definition senior :: player where
  "senior = blank_player\<lparr>id_pk := 2, name := ''Busquets'', position := ''MF'',
     competition := ''La Liga'', age := 34\<rparr>"

definition la_liga :: store where
  "la_liga = \<lparr>rows = [passer, senior], outage = (\<lambda>site. False)\<rparr>"

text \<open>
  Three forwards of one league with the same age and playing time, each scoring at least
  one goal per 90 minutes, so that their statistics vectors coincide.
\<close>

definition striker :: player where
  "striker = blank_player\<lparr>id_pk := 1, name := ''Immobile'', position := ''FW'',
     competition := ''Serie A'', age := 28, minutes_per_90 := 5, goals := 7\<rparr>"

definition rival_2 :: player where
  "rival_2 = striker\<lparr>id_pk := 2, name := ''Lukaku'', goals := 5\<rparr>"

definition rival_3 :: player where
  "rival_3 = striker\<lparr>id_pk := 3, name := ''Osimhen'', goals := 10\<rparr>"

definition serie_a :: store where
  "serie_a = \<lparr>rows = [striker, rival_2, rival_3], outage = (\<lambda>site. False)\<rparr>"

text \<open>
  \<open>from_rows st player res\<close>: every record of \<open>res\<close> carries a score, and the ids of
  \<open>res\<close> are, with their multiplicity, ids of rows of the store other than the target.
\<close>

definition from_rows :: "store \<Rightarrow> player \<Rightarrow> player list \<Rightarrow> bool" where
  "from_rows st player res \<longleftrightarrow>
     (\<forall>r\<in>set res. similarity_score r \<noteq> None) \<and>
     mset (map id_pk res)
       \<subseteq># mset (map id_pk (filter (\<lambda>c. id_pk c \<noteq> id_pk player) (rows st)))"

text \<open>The same league while the store refuses the query of the statistical strategy.\<close>

definition la_liga_down :: store where
  "la_liga_down = la_liga\<lparr>outage := (\<lambda>site. site = StatisticalQuery)\<rparr>"

text \<open>
  The score a result list holds for an id, and 0.0 when no record of the list has the id.
\<close>

definition score_in :: "player list \<Rightarrow> int \<Rightarrow> real option" where
  "score_in similar i =
     (case find (\<lambda>p. id_pk p = i) similar of None \<Rightarrow> Some 0 | Some p \<Rightarrow> similarity_score p)"

text \<open>
  \<open>dict_inv S N m\<close>: the dict \<open>m\<close> has one entry for each id of the two lists; the entry
  under an id holds a record of that id taken from one of the lists, and the scores the two
  lists give the id.
\<close>

definition dict_inv :: "player list \<Rightarrow> player list \<Rightarrow> (int \<times> hybrid_entry) list \<Rightarrow> bool" where
  "dict_inv S N m \<longleftrightarrow>
     distinct (map fst m) \<and>
     fst ` set m = id_pk ` set S \<union> id_pk ` set N \<and>
     (\<forall>i e. map_of m i = Some e \<longrightarrow>
        id_pk (entry_player e) = i \<and> entry_player e \<in> set S \<union> set N \<and>
        statistical_score e = score_in S i \<and> nlp_score e = score_in N i)"

text \<open>
  A third midfielder whose description has many more words than the first one's, and a
  league of the first and the third.
\<close>

definition busy :: player where
  "busy = senior\<lparr>id_pk := 3, name := ''Kroos'', assists := 6, tackles := 21,
     progressive_passes := 51, progressive_carries := 31\<rparr>"

definition la_liga_3 :: store where
  "la_liga_3 = \<lparr>rows = [passer, busy], outage = (\<lambda>site. False)\<rparr>"

section \<open>Properties\<close>

subsection \<open>Exceptions and annotations\<close>

lemma bind_exn_Inr [simp]: "bind_exn (Inr x) f = f x"
  by (simp add: bind_exn_def)

lemma bind_exn_Inl [simp]: "bind_exn (Inl e) f = Inl e"
  by (simp add: bind_exn_def)

lemma annotate_Inr:
  "(\<And>p. p \<in> set ps \<Longrightarrow> expr p = Inr (f p)) \<Longrightarrow> annotate expr ps = Inr (map (\<lambda>p. (p, f p)) ps)"
  by (induction ps) simp_all

subsection \<open>Derived metrics are guarded against a zero divisor\<close>

lemma goals_per_90_calc_value:
  "goals_per_90_calc p =
     Inr (if 0 < minutes_per_90 p then SqlFloat (of_int (goals p) / minutes_per_90 p) else SqlFloat 0)"
  by (simp add: goals_per_90_calc_def)

lemma assists_per_90_calc_value:
  "assists_per_90_calc p =
     Inr (if 0 < minutes_per_90 p then SqlFloat (of_int (assists p) / minutes_per_90 p) else SqlFloat 0)"
  by (simp add: assists_per_90_calc_def)

lemma goal_contribution_per_90_calc_value:
  "goal_contribution_per_90_calc p =
     Inr (if 0 < minutes_per_90 p then SqlFloat (of_int (goals_assists p) / minutes_per_90 p)
          else SqlFloat 0)"
  by (simp add: goal_contribution_per_90_calc_def)

lemma minutes_per_game_calc_value:
  "minutes_per_game_calc p =
     Inr (if 0 < matches_played p
          then SqlInt (sgn (minutes p) * (\<bar>minutes p\<bar> div matches_played p))
          else SqlFloat 0)"
  by (simp add: minutes_per_game_calc_def)

lemma default_field_goals_per_90:
  "is_valid_sort_option SORT_OPTIONS ''goals_per_90''"
  "get_sort_field SORT_OPTIONS ''goals_per_90'' = Inr ''goals_per_90''"
  by (simp_all add: get_sort_field_def is_valid_sort_option_def SORT_OPTIONS_def)

lemma default_field_assists_per_90:
  "is_valid_sort_option SORT_OPTIONS ''assists_per_90''"
  "get_sort_field SORT_OPTIONS ''assists_per_90'' = Inr ''assists_per_90''"
  by (simp_all add: get_sort_field_def is_valid_sort_option_def SORT_OPTIONS_def)

lemma default_field_goal_contribution_per_90:
  "is_valid_sort_option SORT_OPTIONS ''goal_contribution_per_90''"
  "get_sort_field SORT_OPTIONS ''goal_contribution_per_90'' = Inr ''goal_contribution_per_90''"
  by (simp_all add: get_sort_field_def is_valid_sort_option_def SORT_OPTIONS_def)

lemma default_field_minutes_per_game:
  "is_valid_sort_option SORT_OPTIONS ''minutes_per_game''"
  "get_sort_field SORT_OPTIONS ''minutes_per_game'' = Inr ''minutes_per_game''"
  by (simp_all add: get_sort_field_def is_valid_sort_option_def SORT_OPTIONS_def)

lemma sort_goals_per_90:
  "\<exists>a. annotate goals_per_90_calc qs = Inr a \<and> map fst a = qs \<and>
       (\<forall>(p, v) \<in> set a. minutes_per_90 p \<le> 0 \<longrightarrow> v = SqlFloat 0) \<and>
       apply_sorting SORT_OPTIONS qs ''goals_per_90'' rv = Inr (order_by rv a)"
  by (auto simp add: apply_sorting_def default_field_goals_per_90 apply_calculated_sort_def
      annotate_Inr [OF goals_per_90_calc_value] comp_def)

lemma sort_assists_per_90:
  "\<exists>a. annotate assists_per_90_calc qs = Inr a \<and> map fst a = qs \<and>
       (\<forall>(p, v) \<in> set a. minutes_per_90 p \<le> 0 \<longrightarrow> v = SqlFloat 0) \<and>
       apply_sorting SORT_OPTIONS qs ''assists_per_90'' rv = Inr (order_by rv a)"
  by (auto simp add: apply_sorting_def default_field_assists_per_90 apply_calculated_sort_def
      annotate_Inr [OF assists_per_90_calc_value] comp_def)

lemma sort_goal_contribution_per_90:
  "\<exists>a. annotate goal_contribution_per_90_calc qs = Inr a \<and> map fst a = qs \<and>
       (\<forall>(p, v) \<in> set a. minutes_per_90 p \<le> 0 \<longrightarrow> v = SqlFloat 0) \<and>
       apply_sorting SORT_OPTIONS qs ''goal_contribution_per_90'' rv = Inr (order_by rv a)"
  by (auto simp add: apply_sorting_def default_field_goal_contribution_per_90
      apply_calculated_sort_def annotate_Inr [OF goal_contribution_per_90_calc_value] comp_def)

lemma sort_minutes_per_game:
  "\<exists>a. annotate minutes_per_game_calc qs = Inr a \<and> map fst a = qs \<and>
       (\<forall>(p, v) \<in> set a. matches_played p \<le> 0 \<longrightarrow> v = SqlFloat 0) \<and>
       apply_sorting SORT_OPTIONS qs ''minutes_per_game'' rv = Inr (order_by rv a)"
  by (auto simp add: apply_sorting_def default_field_minutes_per_game apply_calculated_sort_def
      annotate_Inr [OF minutes_per_game_calc_value] comp_def)

lemma property_values:
  "goals_per_90 p =
     Inr (if 0 < minutes_per_90 p then py_round (of_int (goals p) / minutes_per_90 p) 2 else 0)"
  "assists_per_90 p =
     Inr (if 0 < minutes_per_90 p then py_round (of_int (assists p) / minutes_per_90 p) 2 else 0)"
  "goal_contribution_per_90 p =
     Inr (if 0 < minutes_per_90 p then py_round (of_int (goals_assists p) / minutes_per_90 p) 2
          else 0)"
  "minutes_per_game p =
     Inr (if 0 < matches_played p
          then py_round (of_int (minutes p) / of_int (matches_played p)) 1 else 0)"
  by (simp_all add: goals_per_90_def assists_per_90_def goal_contribution_per_90_def
      minutes_per_game_def py_truediv_def)

text \<open>
  Claim C8. Sorting by a derived metric never raises: the annotation is computed for every
  row \<open>qs\<close>, and a row whose \<open>minutes_per_90\<close> is not positive (for \<open>minutes_per_game\<close>:
  whose \<open>matches_played\<close> is not positive) gets the value 0. The four properties of the
  model never raise either and are 0 under the same guards.
\<close>

theorem derived_metric_zero_guard:
  "(\<exists>a. annotate goals_per_90_calc qs = Inr a \<and> map fst a = qs \<and>
        (\<forall>(q, v) \<in> set a. minutes_per_90 q \<le> 0 \<longrightarrow> v = SqlFloat 0) \<and>
        apply_sorting SORT_OPTIONS qs ''goals_per_90'' rv = Inr (order_by rv a)) \<and>
   (\<exists>a. annotate assists_per_90_calc qs = Inr a \<and> map fst a = qs \<and>
        (\<forall>(q, v) \<in> set a. minutes_per_90 q \<le> 0 \<longrightarrow> v = SqlFloat 0) \<and>
        apply_sorting SORT_OPTIONS qs ''assists_per_90'' rv = Inr (order_by rv a)) \<and>
   (\<exists>a. annotate goal_contribution_per_90_calc qs = Inr a \<and> map fst a = qs \<and>
        (\<forall>(q, v) \<in> set a. minutes_per_90 q \<le> 0 \<longrightarrow> v = SqlFloat 0) \<and>
        apply_sorting SORT_OPTIONS qs ''goal_contribution_per_90'' rv = Inr (order_by rv a)) \<and>
   (\<exists>a. annotate minutes_per_game_calc qs = Inr a \<and> map fst a = qs \<and>
        (\<forall>(q, v) \<in> set a. matches_played q \<le> 0 \<longrightarrow> v = SqlFloat 0) \<and>
        apply_sorting SORT_OPTIONS qs ''minutes_per_game'' rv = Inr (order_by rv a)) \<and>
   (\<exists>g a c m. goals_per_90 p = Inr g \<and> assists_per_90 p = Inr a \<and>
        goal_contribution_per_90 p = Inr c \<and> minutes_per_game p = Inr m \<and>
        (minutes_per_90 p \<le> 0 \<longrightarrow> g = 0 \<and> a = 0 \<and> c = 0) \<and>
        (matches_played p \<le> 0 \<longrightarrow> m = 0))"
proof -
  have "\<exists>g a c m. goals_per_90 p = Inr g \<and> assists_per_90 p = Inr a \<and>
        goal_contribution_per_90 p = Inr c \<and> minutes_per_game p = Inr m \<and>
        (minutes_per_90 p \<le> 0 \<longrightarrow> g = 0 \<and> a = 0 \<and> c = 0) \<and>
        (matches_played p \<le> 0 \<longrightarrow> m = 0)"
    by (simp add: property_values)
  then show ?thesis
    using sort_goals_per_90 [of qs rv] sort_assists_per_90 [of qs rv]
      sort_goal_contribution_per_90 [of qs rv] sort_minutes_per_game [of qs rv]
    by blast
qed

theorem derived_metric_zero_guard_witness:
  "minutes_per_90 blank_player \<le> 0 \<and> matches_played blank_player \<le> 0 \<and>
   blank_player \<in> set [blank_player] \<and>
   annotate goals_per_90_calc [blank_player] = Inr [(blank_player, SqlFloat 0)] \<and>
   apply_sorting SORT_OPTIONS [blank_player] ''goals_per_90'' True = Inr [blank_player] \<and>
   goals_per_90 blank_player = Inr 0 \<and> minutes_per_game blank_player = Inr 0"
proof -
  have z: "minutes_per_90 blank_player \<le> 0" "matches_played blank_player \<le> 0"
    by (simp_all add: blank_player_def)
  note T = derived_metric_zero_guard [of "[blank_player]" True blank_player]
  from T obtain a where a: "annotate goals_per_90_calc [blank_player] = Inr a"
      "map fst a = [blank_player]"
      "\<forall>(q, v) \<in> set a. minutes_per_90 q \<le> 0 \<longrightarrow> v = SqlFloat 0"
      "apply_sorting SORT_OPTIONS [blank_player] ''goals_per_90'' True = Inr (order_by True a)"
    by (elim conjE exE)
  from T z have g: "goals_per_90 blank_player = Inr 0" "minutes_per_game blank_player = Inr 0"
    by auto
  from a(2) obtain v where av: "a = [(blank_player, v)]"
    by (cases a) auto
  with a(3) z have "v = SqlFloat 0" by simp
  with av a g z show ?thesis
    by (simp add: order_by_def stable_sort_by_def)
qed

subsection \<open>Stable sorting\<close>

lemma mset_insert_by: "mset (insert_by le x xs) = add_mset x (mset xs)"
  by (induction xs) simp_all

lemma mset_stable_sort_by: "mset (stable_sort_by le xs) = mset xs"
  by (induction xs) (simp_all add: stable_sort_by_def mset_insert_by)

lemma set_stable_sort_by: "set (stable_sort_by le xs) = set xs"
  by (metis mset_stable_sort_by set_mset_mset)


lemma set_insert_by: "set (insert_by le x xs) = insert x (set xs)"
  by (metis mset_insert_by set_mset_mset set_mset_add_mset_insert)

lemma sorted_wrt_insert_by:
  assumes tot: "\<And>a b. le a b \<or> le b a" and tr: "\<And>a b c. le a b \<Longrightarrow> le b c \<Longrightarrow> le a c"
  shows "sorted_wrt le xs \<Longrightarrow> sorted_wrt le (insert_by le x xs)"
proof (induction xs)
  case Nil
  then show ?case by simp
next
  case (Cons y ys)
  show ?case
  proof (cases "le x y")
    case True
    with Cons.prems tr show ?thesis by auto
  next
    case False
    with tot have "le y x" by blast
    with False Cons show ?thesis by (auto simp: set_insert_by)
  qed
qed

lemma sorted_wrt_stable_sort_by:
  assumes "\<And>a b. le a b \<or> le b a" and "\<And>a b c. le a b \<Longrightarrow> le b c \<Longrightarrow> le a c"
  shows "sorted_wrt le (stable_sort_by le xs)"
proof (induction xs)
  case Nil
  then show ?case by (simp add: stable_sort_by_def)
next
  case (Cons x xs)
  have "stable_sort_by le (x # xs) = insert_by le x (stable_sort_by le xs)"
    by (simp add: stable_sort_by_def)
  with Cons sorted_wrt_insert_by [of le, OF assms] show ?case by simp
qed

lemma filter_insert_by:
  assumes "P x \<Longrightarrow> \<forall>y\<in>set ys. P y \<longrightarrow> le x y"
  shows "filter P (insert_by le x ys) = (if P x then x # filter P ys else filter P ys)"
  using assms by (induction ys) auto

lemma filter_stable_sort_by:
  assumes "\<And>x y. P x \<Longrightarrow> P y \<Longrightarrow> le x y"
  shows "filter P (stable_sort_by le xs) = filter P xs"
proof (induction xs)
  case Nil
  then show ?case by (simp add: stable_sort_by_def)
next
  case (Cons x xs)
  have "stable_sort_by le (x # xs) = insert_by le x (stable_sort_by le xs)"
    by (simp add: stable_sort_by_def)
  moreover have "filter P (insert_by le x (stable_sort_by le xs)) =
      (if P x then x # filter P (stable_sort_by le xs) else filter P (stable_sort_by le xs))"
    by (rule filter_insert_by) (use assms in blast)
  ultimately show ?case using Cons by simp
qed

lemma insert_by_map:
  "insert_by le (f x) (map f xs) = map f (insert_by (\<lambda>a b. le (f a) (f b)) x xs)"
  by (induction xs) simp_all

lemma stable_sort_by_map:
  "stable_sort_by le (map f xs) = map f (stable_sort_by (\<lambda>a b. le (f a) (f b)) xs)"
  by (induction xs) (simp_all add: stable_sort_by_def insert_by_map)

subsection \<open>Ordering by a stored attribute\<close>











subsection \<open>Style descriptions have a word\<close>

lemma position_parts_words: "\<forall>s\<in>set (position_parts p). starts_with_word s"
  by (auto simp add: position_parts_def starts_with_word_def is_space_def split: if_splits)

lemma performance_parts_words: "\<forall>s\<in>set (performance_parts p). starts_with_word s"
  by (auto simp add: performance_parts_def starts_with_word_def is_space_def split: if_splits)

lemma playing_style_parts_words: "\<forall>s\<in>set (playing_style_parts p). starts_with_word s"
  by (auto simp add: playing_style_parts_def starts_with_word_def is_space_def split: if_splits)

lemma age_parts_words: "\<forall>s\<in>set (age_parts p). starts_with_word s"
  by (auto simp add: age_parts_def starts_with_word_def is_space_def split: if_splits)

lemma description_parts_words: "\<forall>s\<in>set (description_parts p). starts_with_word s"
  using position_parts_words [of p] performance_parts_words [of p]
    playing_style_parts_words [of p] age_parts_words [of p]
  by (auto simp add: description_parts_def)

lemma py_join_starts_with_word:
  "parts \<noteq> [] \<Longrightarrow> \<forall>s\<in>set parts. starts_with_word s \<Longrightarrow> starts_with_word (py_join sep parts)"
proof (cases parts)
  case Nil
  then show "parts \<noteq> [] \<Longrightarrow> ?thesis" by simp
next
  case (Cons x rest)
  assume "\<forall>s\<in>set parts. starts_with_word s"
  with Cons have "starts_with_word x" by simp
  then show ?thesis
    using Cons by (cases rest; cases x) (simp_all add: starts_with_word_def)
qed

lemma description_starts_with_word: "starts_with_word (generate_style_description p)"
proof (cases "description_parts p = []")
  case True
  then show ?thesis
    by (simp add: generate_style_description_def starts_with_word_def is_space_def)
next
  case False
  then show ?thesis
    using py_join_starts_with_word [OF False description_parts_words]
    by (simp add: generate_style_description_def)
qed

lemma lower_char_not_space: "\<not> is_space c \<Longrightarrow> \<not> is_space (lower_char c)"
proof (cases "map_of (zip ''ABCDEFGHIJKLMNOPQRSTUVWXYZ'' ''abcdefghijklmnopqrstuvwxyz'') c")
  case None
  then show "\<not> is_space c \<Longrightarrow> ?thesis" by (simp add: lower_char_def)
next
  case (Some d)
  then have "d \<in> set ''abcdefghijklmnopqrstuvwxyz''"
    by (meson map_of_SomeD set_zip_rightD)
  then have "\<not> is_space d"
    by (auto simp add: is_space_def)
  with Some show ?thesis by (simp add: lower_char_def)
qed

lemma py_lower_starts_with_word: "starts_with_word s \<Longrightarrow> starts_with_word (py_lower s)"
  by (cases s) (simp_all add: starts_with_word_def py_lower_def lower_char_not_space)

lemma split_aux_nonempty:
  "cur \<noteq> [] \<or> (\<exists>c\<in>set s. \<not> is_space c) \<Longrightarrow> split_aux cur s \<noteq> []"
  by (induction s arbitrary: cur) auto

lemma py_split_nonempty: "starts_with_word s \<Longrightarrow> py_split s \<noteq> []"
  by (cases s) (simp_all add: starts_with_word_def py_split_def split_aux_nonempty)

lemma description_words_nonempty:
  "set (py_split (py_lower (generate_style_description p))) \<noteq> {}"
  by (simp add: py_split_nonempty py_lower_starts_with_word description_starts_with_word)

lemma text_similarity_jaccard:
  assumes "set (py_split (py_lower t1)) \<noteq> {}" and "set (py_split (py_lower t2)) \<noteq> {}"
  shows "text_similarity t1 t2 =
     real (card (set (py_split (py_lower t1)) \<inter> set (py_split (py_lower t2)))) /
     real (card (set (py_split (py_lower t1)) \<union> set (py_split (py_lower t2))))"
proof -
  have "card (set (py_split (py_lower t1)) \<union> set (py_split (py_lower t2))) \<noteq> 0"
    using assms by simp
  with assms show ?thesis
    by (simp add: text_similarity_def py_truediv_def Let_def)
qed

text \<open>
  Claim C10. For every record \<open>generate_style_description\<close> returns a non-empty string,
  and the fixed string "versatile player" when no rule adds a part. The word set of every
  generated description is non-empty, so for two generated descriptions
  \<open>text_similarity\<close> never takes its empty-set branch: it returns the quotient of the
  sizes of the intersection and the union of the two word sets.
\<close>

theorem style_description_nonempty:
  "generate_style_description p \<noteq> [] \<and>
   (description_parts p = [] \<longrightarrow> generate_style_description p = ''versatile player'') \<and>
   set (py_split (py_lower (generate_style_description p))) \<noteq> {} \<and>
   set (py_split (py_lower (generate_style_description q))) \<noteq> {} \<and>
   text_similarity (generate_style_description p) (generate_style_description q) =
     real (card (set (py_split (py_lower (generate_style_description p))) \<inter>
                 set (py_split (py_lower (generate_style_description q))))) /
     real (card (set (py_split (py_lower (generate_style_description p))) \<union>
                 set (py_split (py_lower (generate_style_description q)))))"
proof -
  have "generate_style_description p \<noteq> []"
    using description_starts_with_word [of p] by (auto simp add: starts_with_word_def)
  moreover have "description_parts p = [] \<longrightarrow> generate_style_description p = ''versatile player''"
    by (simp add: generate_style_description_def)
  ultimately show ?thesis
    using description_words_nonempty [of p] description_words_nonempty [of q]
      text_similarity_jaccard [OF description_words_nonempty description_words_nonempty, of p q]
    by blast
qed

lemma blank_parts: "description_parts blank_player = []"
  by (simp add: description_parts_def position_parts_def performance_parts_def
      playing_style_parts_def age_parts_def blank_player_def sublist_code)

theorem style_description_nonempty_witness:
  "description_parts blank_player = [] \<and>
   generate_style_description blank_player = ''versatile player'' \<and>
   text_similarity (generate_style_description blank_player)
     (generate_style_description blank_player) = 1"
proof -
  note T = style_description_nonempty [of blank_player blank_player]
  have d: "description_parts blank_player = []" by (rule blank_parts)
  with T have g: "generate_style_description blank_player = ''versatile player''"
    by blast
  from T have "set (py_split (py_lower (generate_style_description blank_player))) \<noteq> {}"
    by blast
  then have "card (set (py_split (py_lower (generate_style_description blank_player)))) \<noteq> 0"
    by simp
  with T have "text_similarity (generate_style_description blank_player)
     (generate_style_description blank_player) = 1"
    by simp
  with d g show ?thesis by simp
qed

subsection \<open>The statistics vector\<close>

lemma rate_feature_value:
  "rate_feature c m r = Inr (if 0 < m then min (of_int c / m / r) 1 else 0)"
  by (simp add: rate_feature_def py_truediv_def)

lemma per_90_feature_value:
  "per_90_feature (Inr v) r = Inr (if 0 < v then min (v / r) 1 else 0)"
  by (simp add: per_90_feature_def)




lemma get_statistics_vector_total: "\<exists>v. get_statistics_vector p = Inr v \<and> length v = 10"
  by (simp add: get_statistics_vector_def property_values rate_feature_value per_90_feature_value)


subsection \<open>Cosine similarity\<close>

lemma sum_squares_nonneg: "0 \<le> (\<Sum>x\<leftarrow>v. x * x)" for v :: "real list"
  by (induction v) simp_all









lemma cosine_unit: "cosine_similarity [0, 0, 0, 0, 0, 0, 0, 0, 0, 1] [0, 0, 0, 0, 0, 0, 0, 0, 0, 1] = 1"
  by (simp add: cosine_similarity_def cosine_body_def np_dot_def np_norm_def)

subsection \<open>Slices\<close>

lemma set_py_slice_to: "set (py_slice_to limit xs) \<subseteq> set xs"
  by (auto simp add: py_slice_to_def dest: in_set_takeD)


lemma py_slice_to_take: "0 \<le> limit \<Longrightarrow> py_slice_to limit xs = take (nat limit) xs"
  by (simp add: py_slice_to_def)

lemma py_slice_to_Nil [simp]: "py_slice_to limit [] = []"
  by (simp add: py_slice_to_def)

lemma mset_py_slice_to: "mset (py_slice_to limit xs) \<subseteq># mset xs"
proof -
  have "mset (take n xs) \<subseteq># mset xs" for n
    by (metis append_take_drop_id mset_append mset_subset_eq_add_left)
  then show ?thesis by (simp add: py_slice_to_def)
qed

subsection \<open>The scoring loops\<close>

lemma fetch_up:
  "\<not> outage st site \<Longrightarrow> fetch st site cond le = Inr (stable_sort_by le (filter cond (rows st)))"
  by (simp add: fetch_def)

lemma fetch_down: "outage st site \<Longrightarrow> fetch st site cond le = Inl DatabaseError"
  by (simp add: fetch_def)

lemma statistical_loop_value:
  assumes "get_statistics_vector player = Inr pv"
  shows "statistical_loop th pv pool = Inr (keep_scored th (statistical_score_of player) pool)"
proof (induction pool)
  case Nil
  then show ?case by (simp add: keep_scored_def)
next
  case (Cons c pool)
  obtain ov where ov: "get_statistics_vector c = Inr ov"
    using get_statistics_vector_total by blast
  with assms have "statistical_score_of player c = cosine_similarity pv ov"
    by (simp add: statistical_score_of_def)
  with ov Cons show ?case
    by (simp add: keep_scored_def Let_def)
qed

lemma nlp_loop_value:
  "nlp_loop th (generate_style_description player) pool = keep_scored th (nlp_score_of player) pool"
  by (induction pool) (simp_all add: keep_scored_def Let_def nlp_score_of_def)

lemma statistical_body_value:
  assumes "\<not> outage st StatisticalQuery"
  shows "statistical_body st th player limit =
     Inr (map fst (py_slice_to limit (sort_by_score_desc
       (keep_scored th (statistical_score_of player)
          (stable_sort_by meta_le (filter (statistical_cond player) (rows st)))))))"
proof -
  obtain pv where pv: "get_statistics_vector player = Inr pv"
    using get_statistics_vector_total by blast
  show ?thesis
    by (simp add: statistical_body_def pv fetch_up [OF assms] statistical_loop_value [OF pv])
qed

lemma nlp_body_value:
  assumes "\<not> outage st NlpQuery"
  shows "nlp_body st th player limit =
     Inr (map fst (py_slice_to limit (sort_by_score_desc
       (keep_scored th (nlp_score_of player)
          (stable_sort_by meta_le (filter (nlp_cond player) (rows st)))))))"
  by (simp add: nlp_body_def Let_def fetch_up [OF assms] nlp_loop_value)

lemma statistical_body_down:
  "outage st StatisticalQuery \<Longrightarrow> statistical_body st th player limit = Inl DatabaseError"
proof -
  assume o: "outage st StatisticalQuery"
  obtain pv where pv: "get_statistics_vector player = Inr pv"
    using get_statistics_vector_total by blast
  show ?thesis
    by (simp add: statistical_body_def pv fetch_down [OF o])
qed

lemma nlp_body_down: "outage st NlpQuery \<Longrightarrow> nlp_body st th player limit = Inl DatabaseError"
  by (simp add: nlp_body_def Let_def fetch_down)




subsection \<open>Threshold filter\<close>

lemma find_statistical_up:
  assumes "\<not> outage st StatisticalQuery"
  shows "find_statistical_similarities st th player limit =
     map fst (py_slice_to limit (sort_by_score_desc
       (keep_scored th (statistical_score_of player)
          (stable_sort_by meta_le (filter (statistical_cond player) (rows st))))))"
  by (simp add: find_statistical_similarities_def statistical_body_value [OF assms])

lemma find_nlp_up:
  assumes "\<not> outage st NlpQuery"
  shows "find_nlp_similarities st th player limit =
     map fst (py_slice_to limit (sort_by_score_desc
       (keep_scored th (nlp_score_of player)
          (stable_sort_by meta_le (filter (nlp_cond player) (rows st))))))"
  by (simp add: find_nlp_similarities_def nlp_body_value [OF assms])




lemma np_norm_age_only: "np_norm [0, 0, 0, 0, 0, 0, 0, 0, 0, a] = \<bar>a\<bar>"
  by (simp add: np_norm_def)

lemma passer_vector:
  "get_statistics_vector passer = Inr [0, 0, 0, 3 / 5, 0, 0, 0, 0, 0, 4 / 5]"
  by (simp add: get_statistics_vector_def property_values rate_feature_value per_90_feature_value
      pct_feature_def passer_def blank_player_def)

lemma senior_vector:
  "get_statistics_vector senior = Inr [0, 0, 0, 0, 0, 0, 0, 0, 0, 17 / 20]"
  by (simp add: get_statistics_vector_def property_values rate_feature_value per_90_feature_value
      pct_feature_def senior_def blank_player_def)

lemma passer_norm: "np_norm [0, 0, 0, 3 / 5, 0, 0, 0, 0, 0, 4 / 5] = 1"
proof -
  have "(\<Sum>x\<leftarrow>[0, 0, 0, 3 / 5, 0, 0, 0, 0, 0, 4 / 5 :: real]. x * x) = 1"
    by simp
  then show ?thesis by (simp only: np_norm_def real_sqrt_one)
qed

lemma passer_senior_score: "statistical_score_of passer senior = 4 / 5"
proof -
  have d: "np_dot [0, 0, 0, 3 / 5, 0, 0, 0, 0, 0, 4 / 5] [0, 0, 0, 0, 0, 0, 0, 0, 0, 17 / 20]
      = Inr (17 / 25)"
    by (simp add: np_dot_def)
  have n: "np_norm [0, 0, 0, 0, 0, 0, 0, 0, 0, 17 / 20] = 17 / 20"
    using np_norm_age_only [of "17 / 20"] by simp
  have "cosine_body [0, 0, 0, 3 / 5, 0, 0, 0, 0, 0, 4 / 5]
      [0, 0, 0, 0, 0, 0, 0, 0, 0, 17 / 20] = Inr (4 / 5)"
    by (simp add: cosine_body_def passer_norm d n)
  then show ?thesis
    by (simp add: statistical_score_of_def passer_vector senior_vector cosine_similarity_def)
qed

lemma la_liga_pool:
  "rows la_liga = [passer, senior]" "\<not> outage la_liga site"
  "statistical_cond passer senior" "\<not> statistical_cond passer passer"
  "fallback_cond passer senior" "\<not> fallback_cond passer passer"
  by (simp_all add: la_liga_def statistical_cond_def fallback_cond_def passer_def senior_def
      blank_player_def)


subsection \<open>Ranking of the statistical strategy\<close>

lemma score_ge_total: "score_ge a b \<or> score_ge b a"
  by (auto simp add: score_ge_def)

lemma score_ge_trans: "score_ge a b \<Longrightarrow> score_ge b c \<Longrightarrow> score_ge a c"
  by (simp add: score_ge_def)

lemma sort_by_score_desc_sorted: "sorted_wrt score_ge (sort_by_score_desc sims)"
  unfolding sort_by_score_desc_def
  by (rule sorted_wrt_stable_sort_by) (auto simp add: score_ge_def)

lemma sort_by_score_desc_mset: "mset (sort_by_score_desc sims) = mset sims"
  by (simp add: sort_by_score_desc_def mset_stable_sort_by)

lemma sort_by_score_desc_stable:
  "filter (\<lambda>x. snd x = s) (sort_by_score_desc sims) = filter (\<lambda>x. snd x = s) sims"
  unfolding sort_by_score_desc_def
  by (rule filter_stable_sort_by) (simp add: score_ge_def)

text \<open>
  Claim C1, as amended. When the store answers the query, the statistical strategy sorts
  the kept candidates (\<open>kept\<close>, the output of the scoring loop on the pool) descending by
  score and returns the first \<open>limit\<close> of them. No tie is broken by id: candidates with
  the same score stay in the order of the pool, which is the order the candidate query
  returned them in.
\<close>

theorem statistical_ranking_stable:
  assumes "\<not> outage st StatisticalQuery"
  shows "\<exists>pv pool kept ranked.
     get_statistics_vector player = Inr pv \<and>
     fetch st StatisticalQuery (statistical_cond player) meta_le = Inr pool \<and>
     statistical_loop th pv pool = Inr kept \<and>
     mset ranked = mset kept \<and> sorted_wrt score_ge ranked \<and>
     (\<forall>s. filter (\<lambda>x. snd x = s) ranked = filter (\<lambda>x. snd x = s) kept) \<and>
     find_statistical_similarities st th player limit = map fst (py_slice_to limit ranked) \<and>
     (0 \<le> limit \<longrightarrow>
        find_statistical_similarities st th player limit = take (nat limit) (map fst ranked))"
proof -
  obtain pv where pv: "get_statistics_vector player = Inr pv"
    using get_statistics_vector_total by blast
  let ?pool = "stable_sort_by meta_le (filter (statistical_cond player) (rows st))"
  let ?kept = "keep_scored th (statistical_score_of player) ?pool"
  let ?ranked = "sort_by_score_desc ?kept"
  have f: "fetch st StatisticalQuery (statistical_cond player) meta_le = Inr ?pool"
    by (rule fetch_up [OF assms])
  have l: "statistical_loop th pv ?pool = Inr ?kept"
    by (rule statistical_loop_value [OF pv])
  have r: "find_statistical_similarities st th player limit = map fst (py_slice_to limit ?ranked)"
    by (simp add: find_statistical_similarities_def statistical_body_value [OF assms])
  then have t: "0 \<le> limit \<longrightarrow>
      find_statistical_similarities st th player limit = take (nat limit) (map fst ?ranked)"
    by (simp add: py_slice_to_take take_map)
  from pv f l r t sort_by_score_desc_mset [of ?kept] sort_by_score_desc_sorted [of ?kept]
    sort_by_score_desc_stable [of _ ?kept]
  show ?thesis by blast
qed

subsection \<open>Two tied candidates\<close>

lemma dot_self: "(\<Sum>(x, y)\<leftarrow>zip v v. x * y) = (\<Sum>x\<leftarrow>v. x * x)" for v :: "real list"
  by (induction v) simp_all

lemma sum_squares_zero: "(\<Sum>x\<leftarrow>v. x * x) = 0 \<Longrightarrow> list_all (\<lambda>x. x = 0) v" for v :: "real list"
proof (induction v)
  case Nil
  then show ?case by simp
next
  case (Cons a v)
  have "0 \<le> a * a" "0 \<le> (\<Sum>x\<leftarrow>v. x * x)"
    by (simp_all add: sum_squares_nonneg)
  with Cons.prems have "a * a = 0" "(\<Sum>x\<leftarrow>v. x * x) = 0"
    by (simp_all add: add_nonneg_eq_0_iff)
  with Cons.IH show ?case by simp
qed

lemma cosine_similarity_self:
  assumes "\<not> list_all (\<lambda>x. x = 0) v"
  shows "cosine_similarity v v = 1"
proof -
  let ?q = "\<Sum>x\<leftarrow>v. x * x"
  have q: "?q \<noteq> 0" using assms sum_squares_zero by blast
  have n: "np_norm v * np_norm v = ?q"
    by (simp add: np_norm_def sum_squares_nonneg)
  have n0: "np_norm v \<noteq> 0"
    using q n by auto
  have "cosine_body v v = Inr (?q / (np_norm v * np_norm v))"
    using assms n0 by (simp add: cosine_body_def np_dot_def dot_self Let_def)
  with n q show ?thesis by (simp add: cosine_similarity_def)
qed

lemma striker_vectors:
  "get_statistics_vector striker = Inr [1, 0, 0, 0, 0, 0, 0, 0, 0, 7 / 10]"
  "get_statistics_vector rival_2 = Inr [1, 0, 0, 0, 0, 0, 0, 0, 0, 7 / 10]"
  "get_statistics_vector rival_3 = Inr [1, 0, 0, 0, 0, 0, 0, 0, 0, 7 / 10]"
  by (simp_all add: get_statistics_vector_def property_values rate_feature_value
      per_90_feature_value pct_feature_def py_round_def rival_2_def rival_3_def striker_def
      blank_player_def)

lemma striker_scores:
  "statistical_score_of striker rival_2 = 1" "statistical_score_of striker rival_3 = 1"
  by (simp_all add: statistical_score_of_def striker_vectors cosine_similarity_self)

lemma serie_a_pool:
  "rows serie_a = [striker, rival_2, rival_3]" "\<not> outage serie_a site"
  "\<not> statistical_cond striker striker" "statistical_cond striker rival_2"
  "statistical_cond striker rival_3" "meta_le rival_3 rival_2" "\<not> meta_le rival_2 rival_3"
  "id_pk rival_2 = 2" "id_pk rival_3 = 3"
  by (simp_all add: serie_a_def statistical_cond_def meta_le_def rival_2_def rival_3_def
      striker_def blank_player_def)

text \<open>
  Claim C1 as stated fails: two candidates with the same score 1 are returned with id 3
  before id 2, because the candidate with more goals comes first in the pool.
\<close>

theorem statistical_tie_counterexample:
  "map (\<lambda>p. (id_pk p, similarity_score p))
     (find_statistical_similarities serie_a (7 / 10) striker 10) = [(3, Some 1), (2, Some 1)]"
  by (simp add: find_statistical_up serie_a_pool stable_sort_by_def keep_scored_def
      striker_scores sort_by_score_desc_def score_ge_def py_slice_to_def)

theorem statistical_ranking_stable_witness:
  "\<not> outage serie_a StatisticalQuery \<and> (0::int) \<le> 10 \<and>
   (\<exists>pv pool kept ranked.
     get_statistics_vector striker = Inr pv \<and>
     fetch serie_a StatisticalQuery (statistical_cond striker) meta_le = Inr pool \<and>
     statistical_loop (7 / 10) pv pool = Inr kept \<and>
     mset ranked = mset kept \<and> sorted_wrt score_ge ranked \<and>
     (\<forall>s. filter (\<lambda>x. snd x = s) ranked = filter (\<lambda>x. snd x = s) kept) \<and>
     find_statistical_similarities serie_a (7 / 10) striker 10 = map fst (py_slice_to 10 ranked) \<and>
     find_statistical_similarities serie_a (7 / 10) striker 10 = take (nat 10) (map fst ranked))"
  using statistical_ranking_stable [of serie_a striker "7 / 10" 10]
  by (simp add: serie_a_pool)

subsection \<open>What every strategy returns\<close>

lemma distinct_mset_subseteq:
  assumes "mset xs \<subseteq># mset ys" and "distinct ys"
  shows "distinct xs"
proof -
  from assms(1) obtain C where "mset ys = mset xs + C"
    by (auto simp add: mset_subset_eq_exists_conv)
  moreover obtain zs where "mset zs = C"
    using ex_mset by blast
  ultimately have "mset ys = mset (xs @ zs)" by simp
  then have "distinct ys \<longleftrightarrow> distinct (xs @ zs)"
    by (rule mset_eq_imp_distinct_iff)
  with assms(2) show ?thesis by simp
qed

lemma from_rows_Nil: "from_rows st player []"
  by (simp add: from_rows_def)

lemma mset_take_subseteq: "mset (take n xs) \<subseteq># mset xs"
  by (metis append_take_drop_id mset_append mset_subset_eq_add_left)

lemma filter_filter_subseteq:
  assumes "\<And>c. P c \<Longrightarrow> Q c"
  shows "mset (map f (filter P xs)) \<subseteq># mset (map f (filter Q xs))"
proof -
  have "filter P (filter Q xs) = filter P xs"
    using assms by (induction xs) auto
  moreover have "mset (filter P (filter Q xs)) \<subseteq># mset (filter Q xs)"
    unfolding mset_filter [of P "filter Q xs"] by (rule multiset_filter_subset)
  ultimately have "mset (filter P xs) \<subseteq># mset (filter Q xs)"
    by simp
  then show ?thesis
    by (simp add: image_mset_subseteq_mono)
qed

lemma from_rows_scored:
  assumes sub: "mset cs \<subseteq># mset (filter cond (rows st))"
    and cond: "\<And>c. cond c \<Longrightarrow> id_pk c \<noteq> id_pk player"
  shows "from_rows st player (map (\<lambda>c. c\<lparr>similarity_score := Some (g c)\<rparr>) cs)"
proof -
  have ids: "map id_pk (map (\<lambda>c. c\<lparr>similarity_score := Some (g c)\<rparr>) cs) = map id_pk cs"
    by simp
  have "mset (map id_pk cs) \<subseteq># mset (map id_pk (filter cond (rows st)))"
    using sub by (simp add: image_mset_subseteq_mono)
  moreover have "mset (map id_pk (filter cond (rows st)))
      \<subseteq># mset (map id_pk (filter (\<lambda>c. id_pk c \<noteq> id_pk player) (rows st)))"
    by (rule filter_filter_subseteq) (rule cond)
  ultimately have "mset (map id_pk cs)
      \<subseteq># mset (map id_pk (filter (\<lambda>c. id_pk c \<noteq> id_pk player) (rows st)))"
    by (rule subset_mset.order_trans)
  then show ?thesis
    unfolding from_rows_def ids by simp
qed

lemma fallback_value:
  assumes "\<not> outage st FallbackQuery" and "0 \<le> limit"
  shows "fallback_similarity_search st player limit =
     map (\<lambda>p. p\<lparr>similarity_score := Some (1 / 2)\<rparr>)
       (take (nat limit) (stable_sort_by goals_assists_le (filter (fallback_cond player) (rows st))))"
  using assms
  by (simp add: fallback_similarity_search_def fallback_body_def qs_slice_to_def fetch_up)

lemma fallback_down:
  "outage st FallbackQuery \<or> limit < 0 \<Longrightarrow> fallback_similarity_search st player limit = []"
  by (auto simp add: fallback_similarity_search_def fallback_body_def qs_slice_to_def fetch_def)

lemma from_rows_fallback: "from_rows st player (fallback_similarity_search st player limit)"
proof (cases "outage st FallbackQuery \<or> limit < 0")
  case True
  then show ?thesis by (simp add: fallback_down from_rows_Nil)
next
  case False
  let ?o = "stable_sort_by goals_assists_le (filter (fallback_cond player) (rows st))"
  have "mset (take (nat limit) ?o) \<subseteq># mset ?o"
    by (rule mset_take_subseteq)
  then have "mset (take (nat limit) ?o) \<subseteq># mset (filter (fallback_cond player) (rows st))"
    by (simp add: mset_stable_sort_by)
  then have "from_rows st player
      (map (\<lambda>p. p\<lparr>similarity_score := Some (1 / 2)\<rparr>) (take (nat limit) ?o))"
    by (rule from_rows_scored) (simp add: fallback_cond_def)
  with False show ?thesis by (simp add: fallback_value)
qed

lemma py_slice_to_map: "py_slice_to limit (map f xs) = map f (py_slice_to limit xs)"
  by (simp add: py_slice_to_def take_map)

lemma ranked_scored:
  "\<exists>cs. map fst (py_slice_to limit (sort_by_score_desc (keep_scored th score pool)))
        = map (\<lambda>c. c\<lparr>similarity_score := Some (score c)\<rparr>) cs \<and>
      mset cs \<subseteq># mset pool"
proof -
  let ?h = "\<lambda>c. (c\<lparr>similarity_score := Some (score c)\<rparr>, score c)"
  let ?F = "filter (\<lambda>c. th \<le> score c) pool"
  let ?cs = "py_slice_to limit (stable_sort_by (\<lambda>a b. score_ge (?h a) (?h b)) ?F)"
  have "map fst (py_slice_to limit (sort_by_score_desc (keep_scored th score pool)))
      = map fst (map ?h ?cs)"
    by (simp only: keep_scored_def sort_by_score_desc_def stable_sort_by_map py_slice_to_map)
  then have 1: "map fst (py_slice_to limit (sort_by_score_desc (keep_scored th score pool)))
      = map (\<lambda>c. c\<lparr>similarity_score := Some (score c)\<rparr>) ?cs"
    by (simp add: comp_def)
  have "mset ?cs \<subseteq># mset ?F"
    using mset_py_slice_to [of limit "stable_sort_by (\<lambda>a b. score_ge (?h a) (?h b)) ?F"]
    by (simp add: mset_stable_sort_by)
  moreover have "mset ?F \<subseteq># mset pool"
    by simp
  ultimately have "mset ?cs \<subseteq># mset pool"
    by (rule subset_mset.order_trans)
  with 1 show ?thesis by blast
qed

lemma from_rows_ranked:
  assumes "\<And>c. cond c \<Longrightarrow> id_pk c \<noteq> id_pk player"
  shows "from_rows st player
     (map fst (py_slice_to limit (sort_by_score_desc
        (keep_scored th score (stable_sort_by le (filter cond (rows st)))))))"
proof -
  obtain cs where cs: "map fst (py_slice_to limit (sort_by_score_desc
        (keep_scored th score (stable_sort_by le (filter cond (rows st))))))
      = map (\<lambda>c. c\<lparr>similarity_score := Some (score c)\<rparr>) cs"
    "mset cs \<subseteq># mset (stable_sort_by le (filter cond (rows st)))"
    using ranked_scored by blast
  from cs(2) have "mset cs \<subseteq># mset (filter cond (rows st))"
    by (simp add: mset_stable_sort_by)
  then have "from_rows st player (map (\<lambda>c. c\<lparr>similarity_score := Some (score c)\<rparr>) cs)"
    by (rule from_rows_scored) (rule assms)
  with cs(1) show ?thesis by simp
qed

lemma from_rows_statistical:
  "from_rows st player (find_statistical_similarities st th player limit)"
proof (cases "outage st StatisticalQuery")
  case True
  then show ?thesis
    by (simp add: find_statistical_similarities_def statistical_body_down from_rows_fallback)
next
  case False
  have "from_rows st player
     (map fst (py_slice_to limit (sort_by_score_desc
        (keep_scored th (statistical_score_of player)
           (stable_sort_by meta_le (filter (statistical_cond player) (rows st)))))))"
    by (rule from_rows_ranked) (simp add: statistical_cond_def)
  with False show ?thesis
    by (simp add: find_statistical_up)
qed

lemma from_rows_nlp: "from_rows st player (find_nlp_similarities st th player limit)"
proof (cases "outage st NlpQuery")
  case True
  then show ?thesis
    by (simp add: find_nlp_similarities_def nlp_body_down from_rows_fallback)
next
  case False
  have "from_rows st player
     (map fst (py_slice_to limit (sort_by_score_desc
        (keep_scored th (nlp_score_of player)
           (stable_sort_by meta_le (filter (nlp_cond player) (rows st)))))))"
    by (rule from_rows_ranked) (simp add: nlp_cond_def)
  with False show ?thesis
    by (simp add: find_nlp_up)
qed

lemma from_rows_not_target:
  assumes "from_rows st player res"
  shows "id_pk player \<notin> id_pk ` set res"
proof -
  from assms have "mset (map id_pk res)
      \<subseteq># mset (map id_pk (filter (\<lambda>c. id_pk c \<noteq> id_pk player) (rows st)))"
    by (simp add: from_rows_def)
  then have "set_mset (mset (map id_pk res))
      \<subseteq> set_mset (mset (map id_pk (filter (\<lambda>c. id_pk c \<noteq> id_pk player) (rows st))))"
    by (rule set_mset_mono)
  then show ?thesis by auto
qed

lemma from_rows_distinct:
  assumes "from_rows st player res" and "distinct (map id_pk (rows st))"
  shows "distinct (map id_pk res)"
proof -
  have "distinct (map id_pk (filter (\<lambda>c. id_pk c \<noteq> id_pk player) (rows st)))"
    using assms(2) by (simp add: distinct_map_filter)
  moreover from assms(1) have "mset (map id_pk res)
      \<subseteq># mset (map id_pk (filter (\<lambda>c. id_pk c \<noteq> id_pk player) (rows st)))"
    by (simp add: from_rows_def)
  ultimately show ?thesis
    by (rule distinct_mset_subseteq [rotated])
qed

subsection \<open>The fallback\<close>

lemma goals_assists_le_total: "goals_assists_le a b \<or> goals_assists_le b a"
  by (auto simp add: goals_assists_le_def)

lemma goals_assists_le_trans:
  "goals_assists_le a b \<Longrightarrow> goals_assists_le b c \<Longrightarrow> goals_assists_le a c"
  by (auto simp add: goals_assists_le_def)

text \<open>
  Claim C6. When the store answers the fallback query and the limit is not negative, the
  fallback returns the first \<open>limit\<close> records of \<open>ordered\<close>, each with the score 0.5,
  where \<open>ordered\<close> holds exactly the rows with the target's position and competition
  whose age is within 3 years of the target's, other than the target, sorted by goals
  descending and then assists descending.
\<close>

theorem fallback_ranking:
  assumes "\<not> outage st FallbackQuery" and "0 \<le> limit"
  shows "\<exists>ordered.
     mset ordered = mset (filter (\<lambda>c. position c = position player \<and>
        competition c = competition player \<and> \<bar>age c - age player\<bar> \<le> 3 \<and>
        id_pk c \<noteq> id_pk player) (rows st)) \<and>
     sorted_wrt (\<lambda>a b. goals b < goals a \<or> (goals a = goals b \<and> assists b \<le> assists a))
       ordered \<and>
     fallback_similarity_search st player limit =
       map (\<lambda>c. c\<lparr>similarity_score := Some (1 / 2)\<rparr>) (take (nat limit) ordered) \<and>
     int (length (fallback_similarity_search st player limit)) \<le> limit \<and>
     (\<forall>r\<in>set (fallback_similarity_search st player limit). similarity_score r = Some (1 / 2))"
proof -
  let ?cond = "\<lambda>c. position c = position player \<and>
        competition c = competition player \<and> \<bar>age c - age player\<bar> \<le> 3 \<and>
        id_pk c \<noteq> id_pk player"
  let ?ordered = "stable_sort_by goals_assists_le (filter (fallback_cond player) (rows st))"
  have c: "fallback_cond player = ?cond"
    by (auto simp add: fallback_cond_def fun_eq_iff)
  have 1: "mset ?ordered = mset (filter ?cond (rows st))"
    by (simp only: mset_stable_sort_by c)
  have "sorted_wrt goals_assists_le ?ordered"
    by (rule sorted_wrt_stable_sort_by) (auto simp add: goals_assists_le_def)
  then have 2: "sorted_wrt (\<lambda>a b. goals b < goals a \<or> (goals a = goals b \<and> assists b \<le> assists a))
       ?ordered"
    by (simp add: goals_assists_le_def [abs_def])
  have 3: "fallback_similarity_search st player limit =
       map (\<lambda>c. c\<lparr>similarity_score := Some (1 / 2)\<rparr>) (take (nat limit) ?ordered)"
    by (rule fallback_value [OF assms])
  have 4: "int (length (fallback_similarity_search st player limit)) \<le> limit"
    using assms(2) unfolding 3 by simp
  have 5: "\<forall>r\<in>set (fallback_similarity_search st player limit). similarity_score r = Some (1 / 2)"
    unfolding 3 by auto
  from 1 2 3 4 5 show ?thesis by blast
qed

theorem fallback_ranking_witness:
  "\<not> outage la_liga FallbackQuery \<and> (0::int) \<le> 10 \<and>
   fallback_similarity_search la_liga passer 10 = [senior\<lparr>similarity_score := Some (1 / 2)\<rparr>] \<and>
   (\<exists>ordered.
     mset ordered = mset (filter (\<lambda>c. position c = position passer \<and>
        competition c = competition passer \<and> \<bar>age c - age passer\<bar> \<le> 3 \<and>
        id_pk c \<noteq> id_pk passer) (rows la_liga)) \<and>
     sorted_wrt (\<lambda>a b. goals b < goals a \<or> (goals a = goals b \<and> assists b \<le> assists a))
       ordered \<and>
     fallback_similarity_search la_liga passer 10 =
       map (\<lambda>c. c\<lparr>similarity_score := Some (1 / 2)\<rparr>) (take (nat 10) ordered) \<and>
     int (length (fallback_similarity_search la_liga passer 10)) \<le> 10 \<and>
     (\<forall>r\<in>set (fallback_similarity_search la_liga passer 10). similarity_score r = Some (1 / 2)))"
proof -
  have fb: "fallback_similarity_search la_liga passer 10
      = [senior\<lparr>similarity_score := Some (1 / 2)\<rparr>]"
    by (simp add: fallback_value la_liga_pool stable_sort_by_def)
  have up: "\<not> outage la_liga FallbackQuery" by (simp add: la_liga_pool)
  from fallback_ranking [OF up, of 10 passer] fb up show ?thesis
    by simp
qed

subsection \<open>The target is never returned\<close>

lemma hybrid_loop_players:
  assumes "hybrid_loop m = Inr hs"
  shows "map (id_pk \<circ> fst) hs = map (id_pk \<circ> entry_player \<circ> snd) m"
  using assms
proof (induction m arbitrary: hs)
  case Nil
  then show ?case by simp
next
  case (Cons a m)
  obtain i e where a: "a = (i, e)" by (cases a)
  from Cons.prems a obtain x rest where x: "hybrid_score_of e = Inr x"
      and rest: "hybrid_loop m = Inr rest" and hs: "hs = x # rest"
    by (auto simp add: bind_exn_def split: sum.splits)
  from x have "id_pk (fst x) = id_pk (entry_player e)"
    by (auto simp add: hybrid_score_of_def Let_def split: option.splits)
  with Cons.IH [OF rest] a hs show ?case by simp
qed

lemma add_statistical_players:
  assumes "\<forall>(i, e)\<in>set m. P (entry_player e)" and "P p"
  shows "\<forall>(i, e)\<in>set (add_statistical p m). P (entry_player e)"
proof -
  have "set (add_statistical p m) \<subseteq> insert (id_pk p,
      \<lparr>entry_player = p, statistical_score = similarity_score p, nlp_score = Some 0\<rparr>) (set m)"
    unfolding add_statistical_def by (induction m) auto
  with assms show ?thesis by auto
qed

lemma set_update_subset: "set (AList.update k v m) \<subseteq> insert (k, v) (set m)"
  by (induction m) auto

lemma add_nlp_players:
  assumes "\<forall>(i, e)\<in>set m. P (entry_player e)" and "P p"
  shows "\<forall>(i, e)\<in>set (add_nlp p m). P (entry_player e)"
proof (cases "map_of m (id_pk p)")
  case None
  then have "set (add_nlp p m) \<subseteq> insert (id_pk p,
      \<lparr>entry_player = p, statistical_score = Some 0, nlp_score = similarity_score p\<rparr>) (set m)"
    by (simp add: add_nlp_def set_update_subset)
  with assms show ?thesis by auto
next
  case (Some e)
  then have "(id_pk p, e) \<in> set m" by (rule map_of_SomeD)
  with assms(1) have "P (entry_player e)" by auto
  moreover from Some have "set (add_nlp p m)
      \<subseteq> insert (id_pk p, e\<lparr>nlp_score := similarity_score p\<rparr>) (set m)"
    by (simp add: add_nlp_def set_update_subset)
  ultimately show ?thesis using assms(1) by auto
qed

lemma fold_add_statistical_players:
  assumes "\<forall>(i, e)\<in>set m. P (entry_player e)" and "\<forall>p\<in>set ps. P p"
  shows "\<forall>(i, e)\<in>set (fold add_statistical ps m). P (entry_player e)"
  using assms
proof (induction ps arbitrary: m)
  case Nil
  then show ?case by simp
next
  case (Cons p ps)
  from Cons.prems have "\<forall>(i, e)\<in>set (add_statistical p m). P (entry_player e)"
    by (intro add_statistical_players) simp_all
  with Cons show ?case by simp
qed

lemma fold_add_nlp_players:
  assumes "\<forall>(i, e)\<in>set m. P (entry_player e)" and "\<forall>p\<in>set ps. P p"
  shows "\<forall>(i, e)\<in>set (fold add_nlp ps m). P (entry_player e)"
  using assms
proof (induction ps arbitrary: m)
  case Nil
  then show ?case by simp
next
  case (Cons p ps)
  from Cons.prems have "\<forall>(i, e)\<in>set (add_nlp p m). P (entry_player e)"
    by (intro add_nlp_players) simp_all
  with Cons show ?case by simp
qed

lemma all_similar_players:
  assumes "\<forall>p\<in>set S. P p" and "\<forall>p\<in>set N. P p"
  shows "\<forall>(i, e)\<in>set (all_similar_of S N). P (entry_player e)"
  unfolding all_similar_of_def
  by (rule fold_add_nlp_players [OF fold_add_statistical_players]) (use assms in simp_all)

lemma hybrid_not_target:
  "id_pk player \<notin> id_pk ` set (find_hybrid_similarities st th player limit)"
proof (cases "hybrid_body st th player limit")
  case (Inl e)
  then show ?thesis
    by (simp add: find_hybrid_similarities_def from_rows_not_target [OF from_rows_fallback])
next
  case (Inr res)
  let ?S = "find_statistical_similarities st th player (limit * 2)"
  let ?N = "find_nlp_similarities st th player (limit * 2)"
  from Inr obtain hs where hs: "hybrid_loop (all_similar_of ?S ?N) = Inr hs"
      and res: "res = map fst (py_slice_to limit (sort_by_score_desc hs))"
    by (auto simp add: hybrid_body_def Let_def bind_exn_def split: sum.splits)
  have "\<forall>p\<in>set ?S. id_pk p \<noteq> id_pk player"
    using from_rows_not_target [OF from_rows_statistical, of player st th "limit * 2"]
    by (metis image_eqI)
  moreover have "\<forall>p\<in>set ?N. id_pk p \<noteq> id_pk player"
    using from_rows_not_target [OF from_rows_nlp, of player st th "limit * 2"]
    by (metis image_eqI)
  ultimately have "\<forall>(i, e)\<in>set (all_similar_of ?S ?N). id_pk (entry_player e) \<noteq> id_pk player"
    by (rule all_similar_players)
  then have "id_pk player \<notin> set (map (id_pk \<circ> entry_player \<circ> snd) (all_similar_of ?S ?N))"
    by auto
  then have "id_pk player \<notin> set (map (id_pk \<circ> fst) hs)"
    using hybrid_loop_players [OF hs] by simp
  moreover have "set res \<subseteq> fst ` set hs"
    unfolding res using set_py_slice_to [of limit "sort_by_score_desc hs"]
    by (auto simp add: sort_by_score_desc_def set_stable_sort_by)
  ultimately have "id_pk player \<notin> id_pk ` set res" by auto
  with Inr show ?thesis by (simp add: find_hybrid_similarities_def)
qed

text \<open>
  Claim C7. Whatever list \<open>find_similar_players\<close> returns, for any of the three methods
  and whether or not a strategy fell back, no record of it has the target's id; neither
  has any record returned by the fallback itself.
\<close>

theorem target_never_returned:
  "(\<forall>res. find_similar_players st th player limit method = Inr res
       \<longrightarrow> id_pk player \<notin> id_pk ` set res) \<and>
   id_pk player \<notin> id_pk ` set (fallback_similarity_search st player limit)"
proof -
  have "id_pk player \<notin> id_pk ` set (find_statistical_similarities st th player limit)"
    by (rule from_rows_not_target [OF from_rows_statistical])
  moreover have "id_pk player \<notin> id_pk ` set (find_nlp_similarities st th player limit)"
    by (rule from_rows_not_target [OF from_rows_nlp])
  moreover have "id_pk player \<notin> id_pk ` set (fallback_similarity_search st player limit)"
    by (rule from_rows_not_target [OF from_rows_fallback])
  moreover note hybrid_not_target [of player st th limit]
  ultimately show ?thesis
    by (auto simp add: find_similar_players_def split: if_splits)
qed

lemma la_liga_statistical:
  "find_statistical_similarities la_liga (1 / 2) passer 10
     = [senior\<lparr>similarity_score := Some (4 / 5)\<rparr>]"
  by (simp add: find_statistical_up la_liga_pool stable_sort_by_def keep_scored_def
      passer_senior_score sort_by_score_desc_def py_slice_to_def)

theorem target_never_returned_witness:
  "find_similar_players la_liga (1 / 2) passer 10 ''statistical''
     = Inr [senior\<lparr>similarity_score := Some (4 / 5)\<rparr>] \<and>
   id_pk passer \<notin> id_pk ` set [senior\<lparr>similarity_score := Some (4 / 5)\<rparr>] \<and>
   id_pk passer \<notin> id_pk ` set (fallback_similarity_search la_liga passer 10)"
proof -
  have r: "find_similar_players la_liga (1 / 2) passer 10 ''statistical''
     = Inr [senior\<lparr>similarity_score := Some (4 / 5)\<rparr>]"
    by (simp add: find_similar_players_def la_liga_statistical)
  with target_never_returned [of la_liga "1 / 2" passer 10 "''statistical''"]
  show ?thesis by simp
qed

subsection \<open>Errors of the dispatch\<close>

text \<open>
  Claim C3. \<open>find_similar_players\<close> raises \<open>ValueError\<close> for every method other than
  the three strategies and returns a list for each of the three. A fault inside a strategy
  (an outage of the store is one) does not reach the caller: whatever the body of a
  strategy raises, the caller receives the result of the fallback, and a fault inside the
  fallback yields the empty list.
\<close>

theorem invalid_method_and_absorbed_faults:
  "(method \<notin> {''statistical'', ''nlp'', ''hybrid''} \<longrightarrow>
      find_similar_players st th player limit method = Inl ValueError) \<and>
   (method \<in> {''statistical'', ''nlp'', ''hybrid''} \<longrightarrow>
      (\<exists>res. find_similar_players st th player limit method = Inr res)) \<and>
   (outage st StatisticalQuery \<longrightarrow> statistical_body st th player limit = Inl DatabaseError) \<and>
   (outage st NlpQuery \<longrightarrow> nlp_body st th player limit = Inl DatabaseError) \<and>
   (\<forall>e. statistical_body st th player limit = Inl e \<longrightarrow>
      find_similar_players st th player limit ''statistical''
        = Inr (fallback_similarity_search st player limit)) \<and>
   (\<forall>e. nlp_body st th player limit = Inl e \<longrightarrow>
      find_similar_players st th player limit ''nlp''
        = Inr (fallback_similarity_search st player limit)) \<and>
   (\<forall>e. hybrid_body st th player limit = Inl e \<longrightarrow>
      find_similar_players st th player limit ''hybrid''
        = Inr (fallback_similarity_search st player limit)) \<and>
   (\<forall>e. fallback_body st player limit = Inl e \<longrightarrow>
      fallback_similarity_search st player limit = [])"
proof (intro conjI impI allI)
  show "find_similar_players st th player limit method = Inl ValueError"
    if "method \<notin> {''statistical'', ''nlp'', ''hybrid''}"
    using that by (simp add: find_similar_players_def)
  show "\<exists>res. find_similar_players st th player limit method = Inr res"
    if "method \<in> {''statistical'', ''nlp'', ''hybrid''}"
    using that by (auto simp add: find_similar_players_def)
  show "statistical_body st th player limit = Inl DatabaseError" if "outage st StatisticalQuery"
    using that by (rule statistical_body_down)
  show "nlp_body st th player limit = Inl DatabaseError" if "outage st NlpQuery"
    using that by (rule nlp_body_down)
  show "find_similar_players st th player limit ''statistical''
        = Inr (fallback_similarity_search st player limit)"
    if "statistical_body st th player limit = Inl e" for e
    using that by (simp add: find_similar_players_def find_statistical_similarities_def)
  show "find_similar_players st th player limit ''nlp''
        = Inr (fallback_similarity_search st player limit)"
    if "nlp_body st th player limit = Inl e" for e
    using that by (simp add: find_similar_players_def find_nlp_similarities_def)
  show "find_similar_players st th player limit ''hybrid''
        = Inr (fallback_similarity_search st player limit)"
    if "hybrid_body st th player limit = Inl e" for e
    using that by (simp add: find_similar_players_def find_hybrid_similarities_def)
  show "fallback_similarity_search st player limit = []"
    if "fallback_body st player limit = Inl e" for e
    using that by (simp add: fallback_similarity_search_def)
qed

lemma la_liga_down_pool:
  "rows la_liga_down = [passer, senior]" "outage la_liga_down StatisticalQuery"
  "\<not> outage la_liga_down FallbackQuery"
  by (simp_all add: la_liga_down_def la_liga_def)

theorem invalid_method_and_absorbed_faults_witness:
  "''cosine'' \<notin> {''statistical'', ''nlp'', ''hybrid''} \<and>
   find_similar_players la_liga_down (1 / 2) passer 10 ''cosine'' = Inl ValueError \<and>
   outage la_liga_down StatisticalQuery \<and>
   statistical_body la_liga_down (1 / 2) passer 10 = Inl DatabaseError \<and>
   find_similar_players la_liga_down (1 / 2) passer 10 ''statistical''
     = Inr [senior\<lparr>similarity_score := Some (1 / 2)\<rparr>]"
proof -
  have m: "''cosine'' \<notin> {''statistical'', ''nlp'', ''hybrid''}" by simp
  have fb: "fallback_similarity_search la_liga_down passer 10
      = [senior\<lparr>similarity_score := Some (1 / 2)\<rparr>]"
    by (simp add: fallback_value la_liga_down_pool la_liga_pool stable_sort_by_def)
  note T = invalid_method_and_absorbed_faults [of _ la_liga_down "1 / 2" passer 10]
  from T [of "''cosine''"] m
  have 1: "find_similar_players la_liga_down (1 / 2) passer 10 ''cosine'' = Inl ValueError"
    by blast
  from T [of "''statistical''"] la_liga_down_pool(2)
  have 2: "statistical_body la_liga_down (1 / 2) passer 10 = Inl DatabaseError"
    by blast
  with T [of "''statistical''"]
  have "find_similar_players la_liga_down (1 / 2) passer 10 ''statistical''
        = Inr (fallback_similarity_search la_liga_down passer 10)"
    by blast
  with 1 2 m fb la_liga_down_pool(2) show ?thesis by simp
qed

subsection \<open>The dict of the hybrid strategy\<close>

lemma find_snoc:
  "find P (xs @ [x]) = (case find P xs of None \<Rightarrow> (if P x then Some x else None) | Some y \<Rightarrow> Some y)"
  by (induction xs) simp_all

lemma score_in_Nil: "score_in [] i = Some 0"
  by (simp add: score_in_def)

lemma find_id_absent: "i \<notin> id_pk ` set L \<Longrightarrow> find (\<lambda>p. id_pk p = i) L = None"
  by (induction L) auto

lemma score_in_absent: "i \<notin> id_pk ` set L \<Longrightarrow> score_in L i = Some 0"
  by (simp add: score_in_def find_id_absent)

lemma score_in_snoc_other: "i \<noteq> id_pk p \<Longrightarrow> score_in (L @ [p]) i = score_in L i"
  by (simp add: score_in_def find_snoc split: option.splits)

lemma score_in_snoc_new:
  assumes "id_pk p \<notin> id_pk ` set L"
  shows "score_in (L @ [p]) (id_pk p) = similarity_score p"
proof -
  from assms have "find (\<lambda>q. id_pk q = id_pk p) L = None"
    by (rule find_id_absent)
  then show ?thesis by (simp add: score_in_def find_snoc)
qed

lemma dict_inv_empty: "dict_inv [] [] []"
  by (simp add: dict_inv_def)

lemma dict_inv_add_statistical:
  assumes inv: "dict_inv S [] m" and new: "id_pk p \<notin> id_pk ` set S"
  shows "dict_inv (S @ [p]) [] (add_statistical p m)"
proof -
  let ?v = "\<lparr>entry_player = p, statistical_score = similarity_score p, nlp_score = Some 0\<rparr>"
  have m': "add_statistical p m = AList.update (id_pk p) ?v m"
    by (simp add: add_statistical_def)
  have 1: "distinct (map fst (add_statistical p m))"
    using inv by (simp add: m' dict_inv_def distinct_update)
  have 2: "fst ` set (add_statistical p m) = id_pk ` set (S @ [p]) \<union> id_pk ` set []"
    using inv by (auto simp add: m' dict_inv_def dom_update)
  have 3: "id_pk (entry_player e) = i \<and> entry_player e \<in> set (S @ [p]) \<union> set [] \<and>
        statistical_score e = score_in (S @ [p]) i \<and> nlp_score e = score_in [] i"
    if "map_of (add_statistical p m) i = Some e" for i e
  proof (cases "i = id_pk p")
    case True
    with that have "e = ?v" by (simp add: m' update_conv')
    with True new show ?thesis
      by (simp add: score_in_snoc_new score_in_Nil)
  next
    case False
    with that have "map_of m i = Some e" by (simp add: m' update_conv')
    with inv have "id_pk (entry_player e) = i \<and> entry_player e \<in> set S \<union> set [] \<and>
        statistical_score e = score_in S i \<and> nlp_score e = score_in [] i"
      unfolding dict_inv_def by blast
    with False show ?thesis by (simp add: score_in_snoc_other)
  qed
  from 1 2 3 show ?thesis unfolding dict_inv_def by blast
qed

lemma dict_inv_add_nlp:
  assumes inv: "dict_inv S N m" and new: "id_pk p \<notin> id_pk ` set N"
  shows "dict_inv S (N @ [p]) (add_nlp p m)"
proof -
  obtain v where m': "add_nlp p m = AList.update (id_pk p) v m"
    and v: "id_pk (entry_player v) = id_pk p" "entry_player v \<in> set S \<union> set (N @ [p])"
      "statistical_score v = score_in S (id_pk p)" "nlp_score v = similarity_score p"
  proof (cases "map_of m (id_pk p)")
    case None
    then have "id_pk p \<notin> fst ` set m" by (simp add: map_of_eq_None_iff)
    with inv have "id_pk p \<notin> id_pk ` set S" by (simp add: dict_inv_def)
    then have "score_in S (id_pk p) = Some 0" by (rule score_in_absent)
    with None that [of "\<lparr>entry_player = p, statistical_score = Some 0,
        nlp_score = similarity_score p\<rparr>"]
    show ?thesis by (simp add: add_nlp_def)
  next
    case (Some e)
    with inv have "id_pk (entry_player e) = id_pk p \<and> entry_player e \<in> set S \<union> set N \<and>
        statistical_score e = score_in S (id_pk p)"
      unfolding dict_inv_def by blast
    with Some that [of "e\<lparr>nlp_score := similarity_score p\<rparr>"]
    show ?thesis by (simp add: add_nlp_def)
  qed
  have 1: "distinct (map fst (add_nlp p m))"
    using inv by (simp add: m' dict_inv_def distinct_update)
  have 2: "fst ` set (add_nlp p m) = id_pk ` set S \<union> id_pk ` set (N @ [p])"
    using inv by (auto simp add: m' dict_inv_def dom_update)
  have 3: "id_pk (entry_player e) = i \<and> entry_player e \<in> set S \<union> set (N @ [p]) \<and>
        statistical_score e = score_in S i \<and> nlp_score e = score_in (N @ [p]) i"
    if "map_of (add_nlp p m) i = Some e" for i e
  proof (cases "i = id_pk p")
    case True
    with that have "e = v" by (simp add: m' update_conv')
    with True new v show ?thesis
      by (simp add: score_in_snoc_new)
  next
    case False
    with that have "map_of m i = Some e" by (simp add: m' update_conv')
    with inv have "id_pk (entry_player e) = i \<and> entry_player e \<in> set S \<union> set N \<and>
        statistical_score e = score_in S i \<and> nlp_score e = score_in N i"
      unfolding dict_inv_def by blast
    with False show ?thesis by (auto simp add: score_in_snoc_other)
  qed
  from 1 2 3 show ?thesis unfolding dict_inv_def by blast
qed

lemma dict_inv_fold_statistical:
  "distinct (map id_pk S) \<Longrightarrow> dict_inv S [] (fold add_statistical S [])"
proof (induction S rule: rev_induct)
  case Nil
  then show ?case by (simp add: dict_inv_empty)
next
  case (snoc p S)
  then have "dict_inv S [] (fold add_statistical S [])" and "id_pk p \<notin> id_pk ` set S"
    by simp_all
  then have "dict_inv (S @ [p]) [] (add_statistical p (fold add_statistical S []))"
    by (rule dict_inv_add_statistical)
  then show ?case by simp
qed

lemma dict_inv_fold_nlp:
  "dict_inv S [] m \<Longrightarrow> distinct (map id_pk N) \<Longrightarrow> dict_inv S N (fold add_nlp N m)"
proof (induction N rule: rev_induct)
  case Nil
  then show ?case by simp
next
  case (snoc p N)
  then have "dict_inv S N (fold add_nlp N m)" and "id_pk p \<notin> id_pk ` set N"
    by simp_all
  then have "dict_inv S (N @ [p]) (add_nlp p (fold add_nlp N m))"
    by (rule dict_inv_add_nlp)
  then show ?case by simp
qed

lemma dict_inv_all_similar:
  assumes "distinct (map id_pk S)" and "distinct (map id_pk N)"
  shows "dict_inv S N (all_similar_of S N)"
  unfolding all_similar_of_def
  by (rule dict_inv_fold_nlp [OF dict_inv_fold_statistical]) (use assms in simp_all)


lemma score_in_Some:
  assumes "\<forall>p\<in>set L. similarity_score p \<noteq> None"
  shows "\<exists>s. score_in L i = Some s"
proof (cases "find (\<lambda>p. id_pk p = i) L")
  case None
  then show ?thesis by (simp add: score_in_def)
next
  case (Some p)
  then have "p \<in> set L"
    by (auto simp add: find_Some_iff)
  with assms Some show ?thesis by (auto simp add: score_in_def)
qed

lemma hybrid_loop_total:
  assumes "\<forall>(i, e)\<in>set m. \<exists>x. hybrid_score_of e = Inr x"
  shows "\<exists>hs. hybrid_loop m = Inr hs"
  using assms
proof (induction m)
  case Nil
  then show ?case by simp
next
  case (Cons a m)
  obtain i e where a: "a = (i, e)" by (cases a)
  from Cons.prems a obtain x where "hybrid_score_of e = Inr x" by auto
  moreover from Cons obtain hs where "hybrid_loop m = Inr hs" by auto
  ultimately show ?case using a by simp
qed

lemma hybrid_loop_elems:
  assumes "hybrid_loop m = Inr hs"
  shows "\<forall>x\<in>set hs. \<exists>(i, e)\<in>set m. hybrid_score_of e = Inr x"
  using assms
proof (induction m arbitrary: hs)
  case Nil
  then show ?case by simp
next
  case (Cons a m)
  obtain i e where a: "a = (i, e)" by (cases a)
  from Cons.prems a obtain x rest where x: "hybrid_score_of e = Inr x"
      and rest: "hybrid_loop m = Inr rest" and hs: "hs = x # rest"
    by (auto simp add: bind_exn_def split: sum.splits)
  from Cons.IH [OF rest] x a hs show ?case by auto
qed

lemma hybrid_score_of_Inr:
  assumes "hybrid_score_of e = Inr (r, h)"
  shows "\<exists>s n. statistical_score e = Some s \<and> nlp_score e = Some n \<and>
     h = s * (6 / 10) + n * (4 / 10) \<and> r = entry_player e\<lparr>similarity_score := Some h\<rparr>"
  using assms by (auto simp add: hybrid_score_of_def Let_def split: option.splits)

text \<open>
  Claim C4. With unique ids in the store, the hybrid strategy runs the statistical and the
  NLP strategy with twice the limit and returns the first \<open>limit\<close> records of \<open>fused\<close>,
  where \<open>fused\<close> is sorted descending by fused score, has every id of either list exactly
  once (no candidate is filtered out), and gives each record the score
  0.6 times its statistical score plus 0.4 times its NLP score, a score being 0.0 where
  the list does not have the id.
\<close>

theorem hybrid_fusion:
  assumes "distinct (map id_pk (rows st))"
  shows "\<exists>fused.
     sorted_wrt score_ge fused \<and>
     distinct (map (id_pk \<circ> fst) fused) \<and>
     id_pk ` fst ` set fused =
       id_pk ` set (find_statistical_similarities st th player (limit * 2)) \<union>
       id_pk ` set (find_nlp_similarities st th player (limit * 2)) \<and>
     (\<forall>(r, h)\<in>set fused. \<exists>s n.
        score_in (find_statistical_similarities st th player (limit * 2)) (id_pk r) = Some s \<and>
        score_in (find_nlp_similarities st th player (limit * 2)) (id_pk r) = Some n \<and>
        h = s * (6 / 10) + n * (4 / 10) \<and> similarity_score r = Some h) \<and>
     find_hybrid_similarities st th player limit = map fst (py_slice_to limit fused) \<and>
     (0 \<le> limit \<longrightarrow>
        find_hybrid_similarities st th player limit = take (nat limit) (map fst fused))"
proof -
  let ?S = "find_statistical_similarities st th player (limit * 2)"
  let ?N = "find_nlp_similarities st th player (limit * 2)"
  let ?m = "all_similar_of ?S ?N"
  have fS: "from_rows st player ?S" by (rule from_rows_statistical)
  have fN: "from_rows st player ?N" by (rule from_rows_nlp)
  have sS: "\<exists>s. score_in ?S i = Some s" for i
    using fS by (intro score_in_Some) (simp add: from_rows_def)
  have sN: "\<exists>n. score_in ?N i = Some n" for i
    using fN by (intro score_in_Some) (simp add: from_rows_def)
  have inv: "dict_inv ?S ?N ?m"
    by (rule dict_inv_all_similar) (rule from_rows_distinct [OF _ assms], fact)+
  then have dist: "distinct (map fst ?m)"
    by (simp add: dict_inv_def)
  have entry: "id_pk (entry_player e) = i \<and> statistical_score e = score_in ?S i \<and>
      nlp_score e = score_in ?N i" if "(i, e) \<in> set ?m" for i e
  proof -
    from that dist have "map_of ?m i = Some e" by simp
    with inv show ?thesis unfolding dict_inv_def by blast
  qed
  have "\<forall>(i, e)\<in>set ?m. \<exists>x. hybrid_score_of e = Inr x"
  proof (intro ballI, clarify)
    fix i e assume "(i, e) \<in> set ?m"
    with entry sS [of i] sN [of i] obtain s n
      where "statistical_score e = Some s" "nlp_score e = Some n" by metis
    then show "\<exists>x. hybrid_score_of e = Inr x"
      by (simp add: hybrid_score_of_def Let_def)
  qed
  then obtain hs where hs: "hybrid_loop ?m = Inr hs"
    using hybrid_loop_total by blast
  let ?fused = "sort_by_score_desc hs"
  have res: "find_hybrid_similarities st th player limit = map fst (py_slice_to limit ?fused)"
    by (simp add: find_hybrid_similarities_def hybrid_body_def Let_def hs)
  have ids: "map (id_pk \<circ> fst) hs = map fst ?m"
  proof -
    have "map (id_pk \<circ> entry_player \<circ> snd) ?m = map fst ?m"
      using entry by (intro map_cong) auto
    with hybrid_loop_players [OF hs] show ?thesis by simp
  qed
  have perm: "mset ?fused = mset hs"
    by (rule sort_by_score_desc_mset)
  then have "mset (map (id_pk \<circ> fst) ?fused) = mset (map (id_pk \<circ> fst) hs)"
    by simp
  then have "distinct (map (id_pk \<circ> fst) ?fused) \<longleftrightarrow> distinct (map (id_pk \<circ> fst) hs)"
    by (rule mset_eq_imp_distinct_iff)
  with dist ids have 2: "distinct (map (id_pk \<circ> fst) ?fused)" by simp
  have setf: "set ?fused = set hs"
    using perm by (rule mset_eq_setD)
  have "set (map (id_pk \<circ> fst) hs) = fst ` set ?m"
    by (simp only: ids set_map)
  moreover have "fst ` set ?m = id_pk ` set ?S \<union> id_pk ` set ?N"
    using inv by (simp add: dict_inv_def)
  ultimately have 3: "id_pk ` fst ` set ?fused = id_pk ` set ?S \<union> id_pk ` set ?N"
    by (simp add: setf image_comp)
  have 4: "\<forall>(r, h)\<in>set ?fused. \<exists>s n. score_in ?S (id_pk r) = Some s \<and>
        score_in ?N (id_pk r) = Some n \<and>
        h = s * (6 / 10) + n * (4 / 10) \<and> similarity_score r = Some h"
  proof (intro ballI, clarify)
    fix r h assume "(r, h) \<in> set ?fused"
    then have "(r, h) \<in> set hs" by (simp add: setf)
    with hybrid_loop_elems [OF hs] obtain i e where ie: "(i, e) \<in> set ?m"
        and x: "hybrid_score_of e = Inr (r, h)"
      by blast
    from hybrid_score_of_Inr [OF x] obtain s n where sn: "statistical_score e = Some s"
        "nlp_score e = Some n" "h = s * (6 / 10) + n * (4 / 10)"
        "r = entry_player e\<lparr>similarity_score := Some h\<rparr>"
      by blast
    from sn(4) have r: "id_pk r = id_pk (entry_player e)" "similarity_score r = Some h"
      by simp_all
    from entry [OF ie] r(1) sn(1,2)
    have "score_in ?S (id_pk r) = Some s" "score_in ?N (id_pk r) = Some n"
      by simp_all
    with sn(3) r(2)
    show "\<exists>s n. score_in ?S (id_pk r) = Some s \<and> score_in ?N (id_pk r) = Some n \<and>
        h = s * (6 / 10) + n * (4 / 10) \<and> similarity_score r = Some h"
      by blast
  qed
  have 5: "0 \<le> limit \<longrightarrow>
      find_hybrid_similarities st th player limit = take (nat limit) (map fst ?fused)"
    by (simp add: res py_slice_to_take take_map)
  from sort_by_score_desc_sorted [of hs] 2 3 4 res 5 show ?thesis by blast
qed

lemma passer_description:
  "generate_style_description passer = ''midfielder experienced player''"
  by (simp add: generate_style_description_def description_parts_def position_parts_def
      performance_parts_def playing_style_parts_def age_parts_def passer_def blank_player_def
      sublist_code)

lemma busy_description:
  "generate_style_description busy =
     ''midfielder creative midfielder defensive midfielder progressive passer ball carrier experienced player''"
  by (simp add: generate_style_description_def description_parts_def position_parts_def
      performance_parts_def playing_style_parts_def age_parts_def busy_def senior_def
      blank_player_def sublist_code)

lemma passer_words:
  "set (py_split (py_lower ''midfielder experienced player''))
     = {''midfielder'', ''experienced'', ''player''}"
  by (simp add: py_split_def py_lower_def lower_char_def is_space_def)

lemma busy_words:
  "set (py_split (py_lower
     ''midfielder creative midfielder defensive midfielder progressive passer ball carrier experienced player''))
     = {''midfielder'', ''creative'', ''defensive'', ''progressive'', ''passer'', ''ball'',
        ''carrier'', ''experienced'', ''player''}"
  by (simp add: py_split_def py_lower_def lower_char_def is_space_def insert_commute)

lemma passer_busy_nlp_score: "nlp_score_of passer busy = 1 / 3"
proof -
  have i: "{''midfielder'', ''experienced'', ''player''} \<inter>
      {''midfielder'', ''creative'', ''defensive'', ''progressive'', ''passer'', ''ball'',
        ''carrier'', ''experienced'', ''player''} = {''midfielder'', ''experienced'', ''player''}"
    by auto
  have u: "{''midfielder'', ''experienced'', ''player''} \<union>
      {''midfielder'', ''creative'', ''defensive'', ''progressive'', ''passer'', ''ball'',
        ''carrier'', ''experienced'', ''player''} =
      {''midfielder'', ''creative'', ''defensive'', ''progressive'', ''passer'', ''ball'',
        ''carrier'', ''experienced'', ''player''}"
    by auto
  show ?thesis
    unfolding nlp_score_of_def passer_description busy_description text_similarity_def Let_def
      passer_words busy_words i u
    by (simp add: py_truediv_def)
qed


lemma busy_vector:
  "get_statistics_vector busy = Inr [0, 0, 0, 0, 0, 0, 0, 0, 0, 17 / 20]"
  by (simp add: get_statistics_vector_def property_values rate_feature_value per_90_feature_value
      pct_feature_def busy_def senior_def blank_player_def)

lemma passer_busy_score: "statistical_score_of passer busy = 4 / 5"
  using passer_senior_score
  by (simp add: statistical_score_of_def passer_vector senior_vector busy_vector)

lemma la_liga_3_pool:
  "rows la_liga_3 = [passer, busy]" "\<not> outage la_liga_3 site"
  "statistical_cond passer busy" "\<not> statistical_cond passer passer"
  "nlp_cond passer busy" "\<not> nlp_cond passer passer"
  "distinct (map id_pk (rows la_liga_3))"
  by (simp_all add: la_liga_3_def statistical_cond_def nlp_cond_def passer_def busy_def
      senior_def blank_player_def)

lemma la_liga_3_statistical:
  "find_statistical_similarities la_liga_3 (1 / 2) passer 20
     = [busy\<lparr>similarity_score := Some (4 / 5)\<rparr>]"
  by (simp add: find_statistical_up la_liga_3_pool stable_sort_by_def keep_scored_def
      passer_busy_score sort_by_score_desc_def py_slice_to_def)

lemma la_liga_3_nlp: "find_nlp_similarities la_liga_3 (1 / 2) passer 20 = []"
  by (simp add: find_nlp_up la_liga_3_pool stable_sort_by_def keep_scored_def
      passer_busy_nlp_score sort_by_score_desc_def py_slice_to_def)

lemma la_liga_3_hybrid:
  "find_hybrid_similarities la_liga_3 (1 / 2) passer 10
     = [busy\<lparr>similarity_score := Some (12 / 25)\<rparr>]"
  by (simp add: find_hybrid_similarities_def hybrid_body_def la_liga_3_statistical la_liga_3_nlp
      all_similar_of_def add_statistical_def hybrid_score_of_def sort_by_score_desc_def
      stable_sort_by_def py_slice_to_def Let_def)

theorem hybrid_fusion_witness:
  "distinct (map id_pk (rows la_liga_3)) \<and>
   find_statistical_similarities la_liga_3 (1 / 2) passer (10 * 2)
     = [busy\<lparr>similarity_score := Some (4 / 5)\<rparr>] \<and>
   find_nlp_similarities la_liga_3 (1 / 2) passer (10 * 2) = [] \<and>
   score_in [busy\<lparr>similarity_score := Some (4 / 5)\<rparr>] (id_pk busy) = Some (4 / 5) \<and>
   score_in [] (id_pk busy) = Some 0 \<and>
   find_hybrid_similarities la_liga_3 (1 / 2) passer 10
     = [busy\<lparr>similarity_score := Some (12 / 25)\<rparr>] \<and>
   (\<exists>fused.
     sorted_wrt score_ge fused \<and>
     distinct (map (id_pk \<circ> fst) fused) \<and>
     id_pk ` fst ` set fused = {id_pk busy} \<and>
     (\<forall>(r, h)\<in>set fused. \<exists>s n.
        score_in [busy\<lparr>similarity_score := Some (4 / 5)\<rparr>] (id_pk r) = Some s \<and>
        score_in [] (id_pk r) = Some n \<and>
        h = s * (6 / 10) + n * (4 / 10) \<and> similarity_score r = Some h) \<and>
     [busy\<lparr>similarity_score := Some (12 / 25)\<rparr>] = map fst (py_slice_to 10 fused))"
proof -
  have d: "distinct (map id_pk (rows la_liga_3))" by (rule la_liga_3_pool)
  from hybrid_fusion [OF d, of "1 / 2" passer 10]
  obtain fused where f: "sorted_wrt score_ge fused"
    "distinct (map (id_pk \<circ> fst) fused)"
    "id_pk ` fst ` set fused =
       id_pk ` set (find_statistical_similarities la_liga_3 (1 / 2) passer (10 * 2)) \<union>
       id_pk ` set (find_nlp_similarities la_liga_3 (1 / 2) passer (10 * 2))"
    "\<forall>(r, h)\<in>set fused. \<exists>s n.
        score_in (find_statistical_similarities la_liga_3 (1 / 2) passer (10 * 2)) (id_pk r) = Some s \<and>
        score_in (find_nlp_similarities la_liga_3 (1 / 2) passer (10 * 2)) (id_pk r) = Some n \<and>
        h = s * (6 / 10) + n * (4 / 10) \<and> similarity_score r = Some h"
    "find_hybrid_similarities la_liga_3 (1 / 2) passer 10 = map fst (py_slice_to 10 fused)"
    by (elim exE conjE)
  have S: "find_statistical_similarities la_liga_3 (1 / 2) passer (10 * 2)
     = [busy\<lparr>similarity_score := Some (4 / 5)\<rparr>]"
    using la_liga_3_statistical by simp
  have N: "find_nlp_similarities la_liga_3 (1 / 2) passer (10 * 2) = []"
    using la_liga_3_nlp by simp
  have sc: "score_in [busy\<lparr>similarity_score := Some (4 / 5)\<rparr>] (id_pk busy) = Some (4 / 5)"
    "score_in [] (id_pk busy) = Some 0"
    by (simp_all add: score_in_def)
  from f(3) have f3: "id_pk ` fst ` set fused = {id_pk busy}"
    unfolding S N by simp
  note f4 = f(4) [unfolded S N]
  note f5 = f(5) [unfolded la_liga_3_hybrid]
  show ?thesis
    by (intro conjI exI [of _ fused]) (fact d S N sc la_liga_3_hybrid f(1,2) f3 f4 f5)+
qed

end
